theory Spec2Isabelle
  imports Main
begin

section \<open>JavaScript values\<close>

text \<open>
  The server (\<^verbatim>\<open>src/server.js\<close>) handles parsed JSON with the dynamic semantics of
  JavaScript: reading a property of \<^verbatim>\<open>undefined\<close> or \<^verbatim>\<open>null\<close> throws a TypeError, reading
  past the end of an array gives \<^verbatim>\<open>undefined\<close>, and a plain object inherits the properties
  of \<^verbatim>\<open>Object.prototype\<close>. The embedding keeps all of that.

  Strings are \<^typ>\<open>string\<close>, holding the UTF-8 bytes of the text. The Chinese literals of the
  source are therefore byte lists; the text before each gives its code points.
  A JSON number is \<^term>\<open>JNum n\<close> for an integral value \<open>n\<close>; numbers with a fraction are
  not part of the embedded type.

  \<^term>\<open>JNative\<close> stands for the two kinds of built-in object a property read on a plain
  object can reach through its prototype: a built-in function (named) and
  \<^verbatim>\<open>Object.prototype\<close> itself.
\<close>

datatype native = Builtin_function string | Object_prototype

datatype jsval =
    JUndefined
  | JNull
  | JBool bool
  | JNum int
  | JStr string
  | JArr "jsval list"
  | JObj "(string \<times> jsval) list"
  | JNative native

text \<open>
  What ends an evaluation early. \<^term>\<open>TypeError\<close> and \<^term>\<open>AxiosError\<close> are the exceptions
  of the program: the second is the rejection of \<^verbatim>\<open>axios.get\<close>, with the upstream's response
  (status and parsed body) when one was received, and the error's message text.
  \<^term>\<open>Outside\<close> is no exception of the program: it marks an evaluation whose JavaScript
  result depends on something this embedding does not hold (the UTF-16 length of a
  non-ASCII string, the conversion between numbers and strings, a property of a built-in
  object). Nothing catches it, and no theorem below says what the program does there.
\<close>

datatype exn =
    TypeError
  | AxiosError "(int \<times> jsval) option" string
  | Outside

definition and_then :: "exn + 'a \<Rightarrow> ('a \<Rightarrow> exn + 'b) \<Rightarrow> exn + 'b" where
  "and_then m f = (case m of Inl e \<Rightarrow> Inl e | Inr v \<Rightarrow> f v)"

subsection \<open>Property reads\<close>

text \<open>
  The own properties of \<^verbatim>\<open>Object.prototype\<close>. Every plain object (an object literal, an
  object made by \<^verbatim>\<open>JSON.parse\<close>) inherits them: \<^verbatim>\<open>obj["constructor"]\<close> is the function
  \<^verbatim>\<open>Object\<close>, \<^verbatim>\<open>obj["__proto__"]\<close> is \<^verbatim>\<open>Object.prototype\<close>, the others are methods.
\<close>

definition Object_prototype_methods :: "string list" where
  "Object_prototype_methods =
     [''__defineGetter__'', ''__defineSetter__'', ''hasOwnProperty'', ''__lookupGetter__'',
      ''__lookupSetter__'', ''isPrototypeOf'', ''propertyIsEnumerable'', ''toString'',
      ''valueOf'', ''toLocaleString'']"

definition inherited :: "string \<Rightarrow> jsval" where
  "inherited k =
     (if k = ''__proto__'' then JNative Object_prototype
      else if k = ''constructor'' then JNative (Builtin_function ''Object'')
      else if k \<in> set Object_prototype_methods then JNative (Builtin_function k)
      else JUndefined)"

text \<open>\<^verbatim>\<open>obj[k]\<close> on a plain object with the own properties \<open>ps\<close>: own first, then inherited.\<close>

definition object_get :: "(string \<times> jsval) list \<Rightarrow> string \<Rightarrow> jsval" where
  "object_get ps k = (case map_of ps k of Some v \<Rightarrow> v | None \<Rightarrow> inherited k)"

text \<open>
  The property names the program reads from upstream data with a fixed name. No built-in
  prototype (of arrays, strings, numbers, booleans) defines any of them, so on such a
  receiver each reads as \<^verbatim>\<open>undefined\<close>.
\<close>

definition program_names :: "string list" where
  "program_names =
     [''records'', ''location'', ''locationName'', ''datasetDescription'', ''weatherElement'',
      ''time'', ''startTime'', ''endTime'', ''parameter'', ''elementName'', ''parameterName'',
      ''parameterUnit'', ''message'']"

definition no_such_property :: "string \<Rightarrow> exn + jsval" where
  "no_such_property k = (if k \<in> set program_names then Inr JUndefined else Inl Outside)"

definition ascii :: "string \<Rightarrow> bool" where
  "ascii s = list_all (\<lambda>c. of_char c < (128::nat)) s"

text \<open>\<^verbatim>\<open>v.k\<close> and \<^verbatim>\<open>v[k]\<close> for a string key \<open>k\<close>.\<close>

fun get_prop :: "jsval \<Rightarrow> string \<Rightarrow> exn + jsval" where
  "get_prop JUndefined k = Inl TypeError"
| "get_prop JNull k = Inl TypeError"
| "get_prop (JObj ps) k = Inr (object_get ps k)"
| "get_prop (JArr xs) k =
     (if k = ''length'' then Inr (JNum (int (length xs))) else no_such_property k)"
| "get_prop (JStr s) k =
     (if k = ''length'' then (if ascii s then Inr (JNum (int (length s))) else Inl Outside)
      else no_such_property k)"
| "get_prop (JBool b) k = (if k = ''length'' then Inr JUndefined else no_such_property k)"
| "get_prop (JNum n) k = (if k = ''length'' then Inr JUndefined else no_such_property k)"
| "get_prop (JNative n) k = Inl Outside"

text \<open>The decimal numeral of an index, the property key JavaScript uses for it.\<close>

definition digit :: "nat \<Rightarrow> char" where
  "digit d = ''0123456789'' ! d"

fun decimal :: "nat \<Rightarrow> string" where
  "decimal n = (if n < 10 then [digit n] else decimal (n div 10) @ [digit (n mod 10)])"

declare decimal.simps [simp del]

text \<open>\<^verbatim>\<open>v[i]\<close> for a number \<open>i\<close> that is a natural number.\<close>

fun get_index :: "jsval \<Rightarrow> nat \<Rightarrow> exn + jsval" where
  "get_index JUndefined i = Inl TypeError"
| "get_index JNull i = Inl TypeError"
| "get_index (JArr xs) i = Inr (if i < length xs then xs ! i else JUndefined)"
| "get_index (JObj ps) i =
     Inr (case map_of ps (decimal i) of Some v \<Rightarrow> v | None \<Rightarrow> JUndefined)"
| "get_index (JStr s) i =
     (if ascii s then Inr (if i < length s then JStr [s ! i] else JUndefined) else Inl Outside)"
| "get_index (JBool b) i = Inr JUndefined"
| "get_index (JNum n) i = Inr JUndefined"
| "get_index (JNative n) i = Inl Outside"

subsection \<open>Conversions\<close>

text \<open>\<^verbatim>\<open>!v\<close> is \<^term>\<open>\<not> truthy v\<close>.\<close>

fun truthy :: "jsval \<Rightarrow> bool" where
  "truthy JUndefined = False"
| "truthy JNull = False"
| "truthy (JBool b) = b"
| "truthy (JNum n) = (n \<noteq> 0)"
| "truthy (JStr s) = (s \<noteq> [])"
| "truthy (JArr xs) = True"
| "truthy (JObj ps) = True"
| "truthy (JNative n) = True"

text \<open>
  The string a value becomes in a template literal or on the left of \<^verbatim>\<open>+\<close> with a string.
  A parsed object has no callable own property, so an own \<^verbatim>\<open>toString\<close> hides the inherited
  method and the conversion throws; without one the result is \<^verbatim>\<open>[object Object]\<close>. An
  array is joined with commas, \<^verbatim>\<open>null\<close> and \<^verbatim>\<open>undefined\<close> elements giving the empty string.
\<close>

fun first_error :: "(exn + string) list \<Rightarrow> exn + string list" where
  "first_error [] = Inr []"
| "first_error (Inl e # rs) = Inl e"
| "first_error (Inr s # rs) = (case first_error rs of Inl e \<Rightarrow> Inl e | Inr ss \<Rightarrow> Inr (s # ss))"

fun join_comma :: "string list \<Rightarrow> string" where
  "join_comma [] = []"
| "join_comma [s] = s"
| "join_comma (s # t # ss) = s @ '','' @ join_comma (t # ss)"

fun to_string :: "jsval \<Rightarrow> exn + string" where
  "to_string JUndefined = Inr ''undefined''"
| "to_string JNull = Inr ''null''"
| "to_string (JBool b) = Inr (if b then ''true'' else ''false'')"
| "to_string (JNum n) = Inl Outside"
| "to_string (JStr s) = Inr s"
| "to_string (JArr xs) =
     (case first_error
        (map (\<lambda>x. if x = JUndefined \<or> x = JNull then Inr [] else to_string x) xs) of
        Inl e \<Rightarrow> Inl e
      | Inr ss \<Rightarrow> Inr (join_comma ss))"
| "to_string (JObj ps) =
     (if map_of ps ''toString'' = None then Inr ''[object Object]'' else Inl TypeError)"
| "to_string (JNative (Builtin_function name)) =
     Inr (''function '' @ name @ ''() { [native code] }'')"
| "to_string (JNative Object_prototype) = Inr ''[object Object]''"

text \<open>
  The loop test \<^verbatim>\<open>i < timeCount\<close> for a natural number \<open>i\<close>: \<^verbatim>\<open>undefined\<close> becomes NaN and
  a plain object becomes NaN through its string, so the test is false; \<^verbatim>\<open>null\<close> is 0,
  \<^verbatim>\<open>true\<close> is 1.
\<close>

fun less_than :: "nat \<Rightarrow> jsval \<Rightarrow> exn + bool" where
  "less_than i (JNum n) = Inr (int i < n)"
| "less_than i JUndefined = Inr False"
| "less_than i JNull = Inr False"
| "less_than i (JBool b) = Inr (b \<and> i = 0)"
| "less_than i (JStr s) = Inl Outside"
| "less_than i (JArr xs) = Inl Outside"
| "less_than i (JObj ps) =
     (if map_of ps ''toString'' = None then Inr False else Inl TypeError)"
| "less_than i (JNative n) = Inl Outside"

section \<open>The city table\<close>

text \<open>
  \<^verbatim>\<open>CWA_CITY_MAP\<close> (lines 14 to 23), an object literal: slug to the city's name in
  Chinese. The names, as code points:

  \<^item> taipei: U+81FA U+5317 U+5E02
  \<^item> newtaipei: U+65B0 U+5317 U+5E02
  \<^item> taoyuan: U+6843 U+5712 U+5E02
  \<^item> taichung: U+81FA U+4E2D U+5E02
  \<^item> tainan: U+81FA U+5357 U+5E02
  \<^item> kaohsiung: U+9AD8 U+96C4 U+5E02
  \<^item> keelung: U+57FA U+9686 U+5E02
  \<^item> hsinchu: U+65B0 U+7AF9 U+5E02
  \<^item> hsinchucounty: U+65B0 U+7AF9 U+7E23
  \<^item> miaoli: U+82D7 U+6817 U+7E23
  \<^item> changhua: U+5F70 U+5316 U+7E23
  \<^item> nantou: U+5357 U+6295 U+7E23
  \<^item> yunlin: U+96F2 U+6797 U+7E23
  \<^item> chiayi: U+5609 U+7FA9 U+5E02
  \<^item> chiayicounty: U+5609 U+7FA9 U+7E23
  \<^item> pingtung: U+5C4F U+6771 U+7E23
  \<^item> yilan: U+5B9C U+862D U+7E23
  \<^item> hualien: U+82B1 U+84EE U+7E23
  \<^item> taitung: U+81FA U+6771 U+7E23
  \<^item> penghu: U+6F8E U+6E56 U+7E23
  \<^item> kinmen: U+91D1 U+9580 U+7E23
  \<^item> lianjiang: U+9023 U+6C5F U+7E23
\<close>

definition CWA_CITY_MAP :: "(string \<times> jsval) list" where
  "CWA_CITY_MAP =
    [(''taipei'', JStr [CHR 0xE8, CHR 0x87, CHR 0xBA, CHR 0xE5, CHR 0x8C, CHR 0x97, CHR 0xE5, CHR 0xB8, CHR 0x82]),
     (''newtaipei'', JStr [CHR 0xE6, CHR 0x96, CHR 0xB0, CHR 0xE5, CHR 0x8C, CHR 0x97, CHR 0xE5, CHR 0xB8, CHR 0x82]),
     (''taoyuan'', JStr [CHR 0xE6, CHR 0xA1, CHR 0x83, CHR 0xE5, CHR 0x9C, CHR 0x92, CHR 0xE5, CHR 0xB8, CHR 0x82]),
     (''taichung'', JStr [CHR 0xE8, CHR 0x87, CHR 0xBA, CHR 0xE4, CHR 0xB8, CHR 0xAD, CHR 0xE5, CHR 0xB8, CHR 0x82]),
     (''tainan'', JStr [CHR 0xE8, CHR 0x87, CHR 0xBA, CHR 0xE5, CHR 0x8D, CHR 0x97, CHR 0xE5, CHR 0xB8, CHR 0x82]),
     (''kaohsiung'', JStr [CHR 0xE9, CHR 0xAB, CHR 0x98, CHR 0xE9, CHR 0x9B, CHR 0x84, CHR 0xE5, CHR 0xB8, CHR 0x82]),
     (''keelung'', JStr [CHR 0xE5, CHR 0x9F, CHR 0xBA, CHR 0xE9, CHR 0x9A, CHR 0x86, CHR 0xE5, CHR 0xB8, CHR 0x82]),
     (''hsinchu'', JStr [CHR 0xE6, CHR 0x96, CHR 0xB0, CHR 0xE7, CHR 0xAB, CHR 0xB9, CHR 0xE5, CHR 0xB8, CHR 0x82]),
     (''hsinchucounty'', JStr [CHR 0xE6, CHR 0x96, CHR 0xB0, CHR 0xE7, CHR 0xAB, CHR 0xB9, CHR 0xE7, CHR 0xB8, CHR 0xA3]),
     (''miaoli'', JStr [CHR 0xE8, CHR 0x8B, CHR 0x97, CHR 0xE6, CHR 0xA0, CHR 0x97, CHR 0xE7, CHR 0xB8, CHR 0xA3]),
     (''changhua'', JStr [CHR 0xE5, CHR 0xBD, CHR 0xB0, CHR 0xE5, CHR 0x8C, CHR 0x96, CHR 0xE7, CHR 0xB8, CHR 0xA3]),
     (''nantou'', JStr [CHR 0xE5, CHR 0x8D, CHR 0x97, CHR 0xE6, CHR 0x8A, CHR 0x95, CHR 0xE7, CHR 0xB8, CHR 0xA3]),
     (''yunlin'', JStr [CHR 0xE9, CHR 0x9B, CHR 0xB2, CHR 0xE6, CHR 0x9E, CHR 0x97, CHR 0xE7, CHR 0xB8, CHR 0xA3]),
     (''chiayi'', JStr [CHR 0xE5, CHR 0x98, CHR 0x89, CHR 0xE7, CHR 0xBE, CHR 0xA9, CHR 0xE5, CHR 0xB8, CHR 0x82]),
     (''chiayicounty'', JStr [CHR 0xE5, CHR 0x98, CHR 0x89, CHR 0xE7, CHR 0xBE, CHR 0xA9, CHR 0xE7, CHR 0xB8, CHR 0xA3]),
     (''pingtung'', JStr [CHR 0xE5, CHR 0xB1, CHR 0x8F, CHR 0xE6, CHR 0x9D, CHR 0xB1, CHR 0xE7, CHR 0xB8, CHR 0xA3]),
     (''yilan'', JStr [CHR 0xE5, CHR 0xAE, CHR 0x9C, CHR 0xE8, CHR 0x98, CHR 0xAD, CHR 0xE7, CHR 0xB8, CHR 0xA3]),
     (''hualien'', JStr [CHR 0xE8, CHR 0x8A, CHR 0xB1, CHR 0xE8, CHR 0x93, CHR 0xAE, CHR 0xE7, CHR 0xB8, CHR 0xA3]),
     (''taitung'', JStr [CHR 0xE8, CHR 0x87, CHR 0xBA, CHR 0xE6, CHR 0x9D, CHR 0xB1, CHR 0xE7, CHR 0xB8, CHR 0xA3]),
     (''penghu'', JStr [CHR 0xE6, CHR 0xBE, CHR 0x8E, CHR 0xE6, CHR 0xB9, CHR 0x96, CHR 0xE7, CHR 0xB8, CHR 0xA3]),
     (''kinmen'', JStr [CHR 0xE9, CHR 0x87, CHR 0x91, CHR 0xE9, CHR 0x96, CHR 0x80, CHR 0xE7, CHR 0xB8, CHR 0xA3]),
     (''lianjiang'', JStr [CHR 0xE9, CHR 0x80, CHR 0xA3, CHR 0xE6, CHR 0xB1, CHR 0x9F, CHR 0xE7, CHR 0xB8, CHR 0xA3])]"


section \<open>The string literals of the source\<close>

text \<open>Line 40: U+4F3A U+670D U+5668 U+8A2D U+5B9A U+932F U+8AA4\<close>

definition msg_config_error :: string where
  "msg_config_error =
     [CHR 0xE4, CHR 0xBC, CHR 0xBA, CHR 0xE6, CHR 0x9C, CHR 0x8D, CHR 0xE5, CHR 0x99, CHR 0xA8,
     CHR 0xE8, CHR 0xA8, CHR 0xAD, CHR 0xE5, CHR 0xAE, CHR 0x9A, CHR 0xE9, CHR 0x8C, CHR 0xAF,
     CHR 0xE8, CHR 0xAA, CHR 0xA4]"

text \<open>Line 41: U+8ACB U+5728 U+0020 U+002E U+0065 U+006E U+0076 U+0020 U+6A94 U+6848 U+4E2D U+8A2D U+5B9A U+0020 U+0043 U+0057 U+0041 U+005F U+0041 U+0050 U+0049 U+005F U+004B U+0045 U+0059\<close>

definition msg_set_key :: string where
  "msg_set_key =
     [CHR 0xE8, CHR 0xAB, CHR 0x8B, CHR 0xE5, CHR 0x9C, CHR 0xA8] @ '' .env '' @ [CHR 0xE6,
     CHR 0xAA, CHR 0x94, CHR 0xE6, CHR 0xA1, CHR 0x88, CHR 0xE4, CHR 0xB8, CHR 0xAD, CHR 0xE8,
     CHR 0xA8, CHR 0xAD, CHR 0xE5, CHR 0xAE, CHR 0x9A] @ '' CWA_API_KEY''"

text \<open>Line 62: U+67E5 U+7121 U+8CC7 U+6599\<close>

definition msg_no_data :: string where
  "msg_no_data =
     [CHR 0xE6, CHR 0x9F, CHR 0xA5, CHR 0xE7, CHR 0x84, CHR 0xA1, CHR 0xE8, CHR 0xB3, CHR 0x87,
     CHR 0xE6, CHR 0x96, CHR 0x99]"

text \<open>Lines 63 and 129, before the city name: U+7121 U+6CD5 U+53D6 U+5F97 U+0020\<close>

definition msg_cannot_get :: string where
  "msg_cannot_get =
     [CHR 0xE7, CHR 0x84, CHR 0xA1, CHR 0xE6, CHR 0xB3, CHR 0x95, CHR 0xE5, CHR 0x8F, CHR 0x96,
     CHR 0xE5, CHR 0xBE, CHR 0x97] @ '' ''"

text \<open>Line 63, after the city name: U+0020 U+5929 U+6C23 U+8CC7 U+6599 U+FF0C U+8ACB U+78BA U+8A8D U+57CE U+5E02 U+540D U+7A31 U+662F U+5426 U+6B63 U+78BA\<close>

definition msg_check_city :: string where
  "msg_check_city =
     '' '' @ [CHR 0xE5, CHR 0xA4, CHR 0xA9, CHR 0xE6, CHR 0xB0, CHR 0xA3, CHR 0xE8, CHR 0xB3,
     CHR 0x87, CHR 0xE6, CHR 0x96, CHR 0x99, CHR 0xEF, CHR 0xBC, CHR 0x8C, CHR 0xE8, CHR 0xAB,
     CHR 0x8B, CHR 0xE7, CHR 0xA2, CHR 0xBA, CHR 0xE8, CHR 0xAA, CHR 0x8D, CHR 0xE5, CHR 0x9F,
     CHR 0x8E, CHR 0xE5, CHR 0xB8, CHR 0x82, CHR 0xE5, CHR 0x90, CHR 0x8D, CHR 0xE7, CHR 0xA8,
     CHR 0xB1, CHR 0xE6, CHR 0x98, CHR 0xAF, CHR 0xE5, CHR 0x90, CHR 0xA6, CHR 0xE6, CHR 0xAD,
     CHR 0xA3, CHR 0xE7, CHR 0xA2, CHR 0xBA]"

text \<open>Line 97: U+767E U+5206 U+6BD4\<close>

definition unit_percent :: string where
  "unit_percent =
     [CHR 0xE7, CHR 0x99, CHR 0xBE, CHR 0xE5, CHR 0x88, CHR 0x86, CHR 0xE6, CHR 0xAF, CHR 0x94]"

text \<open>Lines 101 and 104: U+00B0\<close>

definition degree_sign :: string where
  "degree_sign =
     [CHR 0xC2, CHR 0xB0]"

text \<open>Line 128: U+0043 U+0057 U+0041 U+0020 U+0041 U+0050 U+0049 U+0020 U+932F U+8AA4\<close>

definition msg_cwa_error :: string where
  "msg_cwa_error =
     ''CWA API '' @ [CHR 0xE9, CHR 0x8C, CHR 0xAF, CHR 0xE8, CHR 0xAA, CHR 0xA4]"

text \<open>Line 129, after the city name: U+0020 U+5929 U+6C23 U+8CC7 U+6599\<close>

definition msg_weather_data :: string where
  "msg_weather_data =
     '' '' @ [CHR 0xE5, CHR 0xA4, CHR 0xA9, CHR 0xE6, CHR 0xB0, CHR 0xA3, CHR 0xE8, CHR 0xB3,
     CHR 0x87, CHR 0xE6, CHR 0x96, CHR 0x99]"

text \<open>Line 135: U+4F3A U+670D U+5668 U+932F U+8AA4\<close>

definition msg_server_error :: string where
  "msg_server_error =
     [CHR 0xE4, CHR 0xBC, CHR 0xBA, CHR 0xE6, CHR 0x9C, CHR 0x8D, CHR 0xE5, CHR 0x99, CHR 0xA8,
     CHR 0xE9, CHR 0x8C, CHR 0xAF, CHR 0xE8, CHR 0xAA, CHR 0xA4]"

text \<open>Line 136: U+7121 U+6CD5 U+53D6 U+5F97 U+5929 U+6C23 U+8CC7 U+6599 U+FF0C U+8ACB U+7A0D U+5F8C U+518D U+8A66\<close>

definition msg_try_later :: string where
  "msg_try_later =
     [CHR 0xE7, CHR 0x84, CHR 0xA1, CHR 0xE6, CHR 0xB3, CHR 0x95, CHR 0xE5, CHR 0x8F, CHR 0x96,
     CHR 0xE5, CHR 0xBE, CHR 0x97, CHR 0xE5, CHR 0xA4, CHR 0xA9, CHR 0xE6, CHR 0xB0, CHR 0xA3,
     CHR 0xE8, CHR 0xB3, CHR 0x87, CHR 0xE6, CHR 0x96, CHR 0x99, CHR 0xEF, CHR 0xBC, CHR 0x8C,
     CHR 0xE8, CHR 0xAB, CHR 0x8B, CHR 0xE7, CHR 0xA8, CHR 0x8D, CHR 0xE5, CHR 0xBE, CHR 0x8C,
     CHR 0xE5, CHR 0x86, CHR 0x8D, CHR 0xE8, CHR 0xA9, CHR 0xA6]"

text \<open>Line 165: U+7121 U+6548 U+7684 U+57CE U+5E02 U+4EE3 U+78BC\<close>

definition msg_invalid_slug :: string where
  "msg_invalid_slug =
     [CHR 0xE7, CHR 0x84, CHR 0xA1, CHR 0xE6, CHR 0x95, CHR 0x88, CHR 0xE7, CHR 0x9A, CHR 0x84,
     CHR 0xE5, CHR 0x9F, CHR 0x8E, CHR 0xE5, CHR 0xB8, CHR 0x82, CHR 0xE4, CHR 0xBB, CHR 0xA3,
     CHR 0xE7, CHR 0xA2, CHR 0xBC]"

text \<open>Line 166, before the slug: U+524D U+7AEF U+50B3 U+9001 U+7684 U+57CE U+5E02 U+4EE3 U+78BC U+0020 U+0028\<close>

definition msg_slug_before :: string where
  "msg_slug_before =
     [CHR 0xE5, CHR 0x89, CHR 0x8D, CHR 0xE7, CHR 0xAB, CHR 0xAF, CHR 0xE5, CHR 0x82, CHR 0xB3,
     CHR 0xE9, CHR 0x80, CHR 0x81, CHR 0xE7, CHR 0x9A, CHR 0x84, CHR 0xE5, CHR 0x9F, CHR 0x8E,
     CHR 0xE5, CHR 0xB8, CHR 0x82, CHR 0xE4, CHR 0xBB, CHR 0xA3, CHR 0xE7, CHR 0xA2,
     CHR 0xBC] @ '' (''"

text \<open>Line 166, after the slug: U+0029 U+0020 U+7121 U+6548 U+FF0C U+5F8C U+7AEF U+4E0D U+652F U+63F4\<close>

definition msg_slug_after :: string where
  "msg_slug_after =
     '') '' @ [CHR 0xE7, CHR 0x84, CHR 0xA1, CHR 0xE6, CHR 0x95, CHR 0x88, CHR 0xEF, CHR 0xBC,
     CHR 0x8C, CHR 0xE5, CHR 0xBE, CHR 0x8C, CHR 0xE7, CHR 0xAB, CHR 0xAF, CHR 0xE4, CHR 0xB8,
     CHR 0x8D, CHR 0xE6, CHR 0x94, CHR 0xAF, CHR 0xE6, CHR 0x8F, CHR 0xB4]"

section \<open>The program\<close>

subsection \<open>The upstream call and the reply\<close>

text \<open>
  \<^verbatim>\<open>axios.get(url, { params })\<close> is the program's one effect on the outside. The network is a
  function from the request to what \<^verbatim>\<open>axios.get\<close> settles with: it fulfils with the parsed
  body (\<^verbatim>\<open>response.data\<close>) on a 2xx status, and rejects otherwise, with the response when
  the upstream answered and without one when nothing was received.
\<close>

record request =
  url :: string
  params :: "(string \<times> jsval) list"

datatype axios_result =
    Fulfilled jsval
  | Rejected "(int \<times> jsval) option" string

text \<open>
  What the client gets: \<^term>\<open>Reply status body\<close> for \<^verbatim>\<open>res.status(status).json(body)\<close>, with the
  body as it is passed to \<^verbatim>\<open>res.json\<close>; \<^term>\<open>Unhandled_rejection\<close> when an exception leaves
  \<^verbatim>\<open>getWeatherByCity\<close> (the route does not await it, so nothing is sent);
  \<^term>\<open>Outside_embedding\<close> when the evaluation left the embedding.
  A run also records the requests made to the upstream, in order. Console output is not
  recorded: it has no part in the reply.
\<close>

datatype outcome =
    Reply int jsval
  | Unhandled_rejection
  | Outside_embedding

record run =
  outcome :: outcome
  calls :: "request list"

text \<open>
  \<^verbatim>\<open>res.json\<close> sends \<^verbatim>\<open>JSON.stringify(body)\<close>: a property whose value is \<^verbatim>\<open>undefined\<close> or a
  function is left out of an object, and is \<^verbatim>\<open>null\<close> in an array. \<^term>\<open>wire v\<close> is the JSON
  value the client parses.
\<close>

fun is_function :: "jsval \<Rightarrow> bool" where
  "is_function (JNative (Builtin_function name)) = True"
| "is_function v = False"

fun wire :: "jsval \<Rightarrow> jsval" where
  "wire (JObj ps) =
     JObj (map (\<lambda>(k, v). (k, wire v))
       (filter (\<lambda>(k, v). v \<noteq> JUndefined \<and> \<not> is_function v) ps))"
| "wire (JArr xs) =
     JArr (map (\<lambda>v. if v = JUndefined \<or> is_function v then JNull else wire v) xs)"
| "wire (JNative Object_prototype) = JObj []"
| "wire v = v"

subsection \<open>One forecast slot (lines 78 to 113)\<close>

record forecast =
  startTime :: jsval
  endTime :: jsval
  weather :: jsval
  rain :: jsval
  minTemp :: jsval
  maxTemp :: jsval
  comfort :: jsval
  windSpeed :: jsval

definition forecast_object :: "forecast \<Rightarrow> jsval" where
  "forecast_object f =
     JObj [(''startTime'', startTime f), (''endTime'', endTime f), (''weather'', weather f),
           (''rain'', rain f), (''minTemp'', minTemp f), (''maxTemp'', maxTemp f),
           (''comfort'', comfort f), (''windSpeed'', windSpeed f)]"

text \<open>
  \<^verbatim>\<open>value.parameterName + (value.parameterUnit === unit ? suffix : '')\<close> (lines 97, 101
  and 104).
\<close>

definition with_unit :: "jsval \<Rightarrow> string \<Rightarrow> string \<Rightarrow> exn + jsval" where
  "with_unit val unit suffix =
     and_then (get_prop val ''parameterName'') (\<lambda>name.
     and_then (get_prop val ''parameterUnit'') (\<lambda>parameterUnit.
     and_then (to_string name) (\<lambda>s.
       Inr (JStr (s @ (if parameterUnit = JStr unit then suffix else ''''))))))"

text \<open>The callback of \<^verbatim>\<open>weatherElements.forEach\<close> (lines 89 to 113), for the slot index \<open>i\<close>.\<close>

definition forEach_callback :: "nat \<Rightarrow> forecast \<Rightarrow> jsval \<Rightarrow> exn + forecast" where
  "forEach_callback i forecast element =
     and_then (get_prop element ''time'') (\<lambda>time.
     and_then (get_index time i) (\<lambda>entry.
     and_then (get_prop entry ''parameter'') (\<lambda>val.
     and_then (get_prop element ''elementName'') (\<lambda>elementName.
       if elementName = JStr ''Wx'' then
         and_then (get_prop val ''parameterName'') (\<lambda>v. Inr (forecast\<lparr>weather := v\<rparr>))
       else if elementName = JStr ''PoP'' then
         and_then (with_unit val unit_percent ''%'') (\<lambda>v. Inr (forecast\<lparr>rain := v\<rparr>))
       else if elementName = JStr ''MinT'' then
         and_then (with_unit val ''C'' degree_sign) (\<lambda>v. Inr (forecast\<lparr>minTemp := v\<rparr>))
       else if elementName = JStr ''MaxT'' then
         and_then (with_unit val ''C'' degree_sign) (\<lambda>v. Inr (forecast\<lparr>maxTemp := v\<rparr>))
       else if elementName = JStr ''CI'' then
         and_then (get_prop val ''parameterName'') (\<lambda>v. Inr (forecast\<lparr>comfort := v\<rparr>))
       else if elementName = JStr ''WS'' then
         and_then (get_prop val ''parameterName'') (\<lambda>v. Inr (forecast\<lparr>windSpeed := v\<rparr>))
       else Inr forecast))))"

text \<open>
  \<^verbatim>\<open>xs.forEach(callback)\<close>: the callback runs on the elements in order, and the first
  exception ends the iteration. Only an array has the method; on any other value the call
  throws a TypeError.
\<close>

fun forEach_elements ::
  "(forecast \<Rightarrow> jsval \<Rightarrow> exn + forecast) \<Rightarrow> forecast \<Rightarrow> jsval list \<Rightarrow> exn + forecast" where
  "forEach_elements callback forecast [] = Inr forecast"
| "forEach_elements callback forecast (element # elements) =
     (case callback forecast element of
        Inl e \<Rightarrow> Inl e
      | Inr forecast' \<Rightarrow> forEach_elements callback forecast' elements)"

definition forEach ::
  "jsval \<Rightarrow> (forecast \<Rightarrow> jsval \<Rightarrow> exn + forecast) \<Rightarrow> forecast \<Rightarrow> exn + forecast" where
  "forEach weatherElements callback forecast =
     (case weatherElements of
        JArr elements \<Rightarrow> forEach_elements callback forecast elements
      | _ \<Rightarrow> Inl TypeError)"

text \<open>The object literal of lines 78 to 87: the forecast before the elements are read.\<close>

definition blank :: "jsval \<Rightarrow> jsval \<Rightarrow> forecast" where
  "blank start end_time =
     \<lparr>startTime = start, endTime = end_time, weather = JStr '''', rain = JStr '''',
      minTemp = JStr '''', maxTemp = JStr '''', comfort = JStr '''', windSpeed = JStr ''''\<rparr>"

text \<open>The body of the \<^verbatim>\<open>for\<close> loop (lines 78 to 113): the forecast of slot \<open>i\<close>.\<close>

definition slot :: "jsval \<Rightarrow> nat \<Rightarrow> exn + forecast" where
  "slot weatherElements i =
     and_then (get_index weatherElements 0) (\<lambda>first.
     and_then (get_prop first ''time'') (\<lambda>time.
     and_then (get_index time i) (\<lambda>entry.
     and_then (get_prop entry ''startTime'') (\<lambda>start.
     and_then (get_prop entry ''endTime'') (\<lambda>end_time.
       forEach weatherElements (forEach_callback i) (blank start end_time))))))"

subsection \<open>The loop (lines 77 to 116)\<close>

text \<open>
  \<^verbatim>\<open>for (let i = 0; i < timeCount; i++) { ...; weatherData.forecasts.push(forecast) }\<close>,
  from the index \<open>i\<close> with the forecasts pushed so far. The bound of the loop is what the test
  allows: no index passes the test for a \<open>timeCount\<close> that is not a number or \<^verbatim>\<open>true\<close>.
\<close>

fun bound :: "jsval \<Rightarrow> nat" where
  "bound (JNum n) = nat n"
| "bound (JBool b) = (if b then 1 else 0)"
| "bound v = 0"

function for_loop :: "jsval \<Rightarrow> jsval \<Rightarrow> nat \<Rightarrow> jsval list \<Rightarrow> exn + jsval list" where
  "for_loop weatherElements timeCount i forecasts =
     (case less_than i timeCount of
        Inl e \<Rightarrow> Inl e
      | Inr continue \<Rightarrow>
          if continue then
            (case slot weatherElements i of
               Inl e \<Rightarrow> Inl e
             | Inr forecast \<Rightarrow>
                 for_loop weatherElements timeCount (Suc i) (forecasts @ [forecast_object forecast]))
          else Inr forecasts)"
  by pat_completeness auto
termination
proof (relation "measure (\<lambda>(weatherElements, timeCount, i, forecasts). bound timeCount - i)")
  show "wf (measure (\<lambda>(weatherElements, timeCount, i, forecasts). bound timeCount - i))"
    by simp
next
  fix weatherElements timeCount :: jsval and i :: nat and forecasts :: "jsval list"
    and continue :: bool and forecast :: forecast
  assume "less_than i timeCount = Inr continue" and "continue"
  then have "i < bound timeCount"
    by (cases timeCount) (auto split: if_splits)
  then show "((weatherElements, timeCount, Suc i, forecasts @ [forecast_object forecast]),
              (weatherElements, timeCount, i, forecasts))
             \<in> measure (\<lambda>(weatherElements, timeCount, i, forecasts). bound timeCount - i)"
    by simp
qed

declare for_loop.simps [simp del]

subsection \<open>getWeatherByCity (lines 35 to 139)\<close>

definition CWA_API_BASE_URL :: string where
  "CWA_API_BASE_URL = ''https://opendata.cwa.gov.tw/api''"

definition forecast_request :: "string \<Rightarrow> jsval \<Rightarrow> request" where
  "forecast_request key cityName =
     \<lparr>url = CWA_API_BASE_URL @ ''/v1/rest/datastore/F-C0032-001'',
      params = [(''Authorization'', JStr key), (''locationName'', cityName)]\<rparr>"

text \<open>
  Lines 56 to 121: the \<^verbatim>\<open>try\<close> block after the \<^verbatim>\<open>await\<close>, on the fulfilled response's
  \<^verbatim>\<open>data\<close>. It ends with a reply or with an exception for the \<^verbatim>\<open>catch\<close> block.
\<close>

definition on_fulfilled :: "jsval \<Rightarrow> jsval \<Rightarrow> exn + outcome" where
  "on_fulfilled cityName data =
     and_then (get_prop data ''records'') (\<lambda>records.
     and_then (get_prop records ''location'') (\<lambda>location.
     and_then (get_index location 0) (\<lambda>locationData.
       if \<not> truthy locationData then
         and_then (to_string cityName) (\<lambda>name.
           Inr (Reply 404 (JObj
             [(''error'', JStr msg_no_data),
              (''message'', JStr (msg_cannot_get @ name @ msg_check_city))])))
       else
         and_then (get_prop locationData ''locationName'') (\<lambda>city.
         and_then (get_prop data ''records'') (\<lambda>records'.
         and_then (get_prop records' ''datasetDescription'') (\<lambda>updateTime.
         and_then (get_prop locationData ''weatherElement'') (\<lambda>weatherElements.
         and_then (get_index weatherElements 0) (\<lambda>first.
         and_then (get_prop first ''time'') (\<lambda>time.
         and_then (get_prop time ''length'') (\<lambda>timeCount.
         and_then (for_loop weatherElements timeCount 0 []) (\<lambda>forecasts.
           Inr (Reply 200 (JObj
             [(''success'', JBool True),
              (''data'', JObj
                 [(''city'', city), (''updateTime'', updateTime),
                  (''forecasts'', JArr forecasts)])])))))))))))))"

text \<open>
  Lines 123 to 138: the \<^verbatim>\<open>catch\<close> block. A TypeError has no \<^verbatim>\<open>response\<close> property, and
  neither has the rejection of a request that got no answer. An exception thrown in the
  block itself leaves the function.
\<close>

definition on_error :: "jsval \<Rightarrow> exn \<Rightarrow> outcome" where
  "on_error cityName error =
     (case error of
        Outside \<Rightarrow> Outside_embedding
      | AxiosError (Some (status, data)) text \<Rightarrow>
          (case and_then (get_prop data ''message'') (\<lambda>message.
                  if truthy message then Inr message
                  else and_then (to_string cityName) (\<lambda>name.
                         Inr (JStr (msg_cannot_get @ name @ msg_weather_data)))) of
             Inr message \<Rightarrow>
               Reply status (JObj
                 [(''error'', JStr msg_cwa_error), (''message'', message), (''details'', data)])
           | Inl Outside \<Rightarrow> Outside_embedding
           | Inl e \<Rightarrow> Unhandled_rejection)
      | _ \<Rightarrow>
          Reply 500 (JObj
            [(''error'', JStr msg_server_error), (''message'', JStr msg_try_later)]))"

text \<open>
  \<^verbatim>\<open>CWA_API_KEY\<close> is \<^verbatim>\<open>process.env.CWA_API_KEY\<close>: a string, or \<^verbatim>\<open>undefined\<close> (\<^term>\<open>None\<close>) when
  the variable is not set. \<^verbatim>\<open>!CWA_API_KEY\<close> holds for \<^verbatim>\<open>undefined\<close> and for the empty string.
\<close>

definition getWeatherByCity ::
  "string option \<Rightarrow> (request \<Rightarrow> axios_result) \<Rightarrow> jsval \<Rightarrow> run" where
  "getWeatherByCity CWA_API_KEY axios_get cityName =
     (case CWA_API_KEY of
        None \<Rightarrow>
          \<lparr>outcome = Reply 500 (JObj
             [(''error'', JStr msg_config_error), (''message'', JStr msg_set_key)]),
           calls = []\<rparr>
      | Some key \<Rightarrow>
          if key = [] then
            \<lparr>outcome = Reply 500 (JObj
               [(''error'', JStr msg_config_error), (''message'', JStr msg_set_key)]),
             calls = []\<rparr>
          else
            \<lparr>outcome =
               (case (case axios_get (forecast_request key cityName) of
                        Fulfilled data \<Rightarrow> on_fulfilled cityName data
                      | Rejected response text \<Rightarrow> Inl (AxiosError response text)) of
                  Inr reply \<Rightarrow> reply
                | Inl error \<Rightarrow> on_error cityName error),
             calls = [forecast_request key cityName]\<rparr>)"

subsection \<open>The route /api/weather/:citySlug (lines 158 to 172)\<close>

text \<open>
  \<^verbatim>\<open>String.prototype.toLowerCase\<close> follows the Unicode case tables, which are no part of
  the repository: the route takes the function as its first argument, and the theorems
  hold for every such function. \<^term>\<open>ascii_toLowerCase\<close> is what it does on ASCII text.
\<close>

definition ascii_toLowerCase :: "string \<Rightarrow> string" where
  "ascii_toLowerCase s =
     map (\<lambda>c. case map_of (zip ''ABCDEFGHIJKLMNOPQRSTUVWXYZ'' ''abcdefghijklmnopqrstuvwxyz'') c of
                Some l \<Rightarrow> l
              | None \<Rightarrow> c) s"

definition weather_route ::
  "(string \<Rightarrow> string) \<Rightarrow> string option \<Rightarrow> (request \<Rightarrow> axios_result) \<Rightarrow> string \<Rightarrow> run" where
  "weather_route toLowerCase CWA_API_KEY axios_get slug =
     (let citySlug = toLowerCase slug;
          cwaCityName = object_get CWA_CITY_MAP citySlug
      in if \<not> truthy cwaCityName then
           \<lparr>outcome = Reply 404 (JObj
              [(''success'', JBool False),
               (''error'', JStr msg_invalid_slug),
               (''message'', JStr (msg_slug_before @ citySlug @ msg_slug_after))]),
            calls = []\<rparr>
         else getWeatherByCity CWA_API_KEY axios_get cwaCityName)"

section \<open>Upstream records of the documented shape\<close>

text \<open>
  The upstream's forecast document gives each location a \<^verbatim>\<open>weatherElement\<close> array; each
  element has an \<^verbatim>\<open>elementName\<close> and a \<^verbatim>\<open>time\<close> array; each time entry has \<^verbatim>\<open>startTime\<close>,
  \<^verbatim>\<open>endTime\<close> and a \<^verbatim>\<open>parameter\<close> object with a string \<^verbatim>\<open>parameterName\<close> (and, for some
  elements, a \<^verbatim>\<open>parameterUnit\<close>). The predicates below say that a parsed value has this
  shape, as far as the loop reads it.

  \<^term>\<open>time_entry_ok t\<close>: \<open>t\<close> is an object whose \<^verbatim>\<open>parameter\<close> is an object with a string
  \<^verbatim>\<open>parameterName\<close>.
  \<^term>\<open>element_ok n e\<close>: \<open>e\<close> is an object whose \<^verbatim>\<open>time\<close> is an array of at least \<open>n\<close>
  entries, the first \<open>n\<close> of them such entries.
  \<^term>\<open>well_formed elements ts\<close>: there is a first element, \<open>ts\<close> is its \<^verbatim>\<open>time\<close> array, and
  every element's \<^verbatim>\<open>time\<close> array is at least as long as \<open>ts\<close>, with entries of that shape up
  to the length of \<open>ts\<close>.
\<close>

fun time_entry_ok :: "jsval \<Rightarrow> bool" where
  "time_entry_ok (JObj ps) =
     (case map_of ps ''parameter'' of
        Some (JObj qs) \<Rightarrow> (case map_of qs ''parameterName'' of Some (JStr s) \<Rightarrow> True | _ \<Rightarrow> False)
      | _ \<Rightarrow> False)"
| "time_entry_ok v = False"

fun element_ok :: "nat \<Rightarrow> jsval \<Rightarrow> bool" where
  "element_ok n (JObj ps) =
     (case map_of ps ''time'' of
        Some (JArr ts) \<Rightarrow> n \<le> length ts \<and> list_all time_entry_ok (take n ts)
      | _ \<Rightarrow> False)"
| "element_ok n v = False"

definition well_formed :: "jsval list \<Rightarrow> jsval list \<Rightarrow> bool" where
  "well_formed elements ts \<longleftrightarrow>
     (case elements of [] \<Rightarrow> False | first # others \<Rightarrow> get_prop first ''time'' = Inr (JArr ts))
     \<and> list_all (element_ok (length ts)) elements"

text \<open>
  The six element codes of the \<^verbatim>\<open>switch\<close> (lines 91 to 112), and the field of the forecast
  each case assigns.
\<close>

datatype code = Wx | PoP | MinT | MaxT | CI | WS

fun code_name :: "code \<Rightarrow> string" where
  "code_name Wx = ''Wx''"
| "code_name PoP = ''PoP''"
| "code_name MinT = ''MinT''"
| "code_name MaxT = ''MaxT''"
| "code_name CI = ''CI''"
| "code_name WS = ''WS''"

fun field :: "code \<Rightarrow> forecast \<Rightarrow> jsval" where
  "field Wx f = weather f"
| "field PoP f = rain f"
| "field MinT f = minTemp f"
| "field MaxT f = maxTemp f"
| "field CI f = comfort f"
| "field WS f = windSpeed f"

section \<open>Sample data\<close>

text \<open>
  A forecast document of the documented shape, for the concrete instances of the theorems:
  two time slots, the element \<^verbatim>\<open>PoP\<close> twice (with different values), a \<^verbatim>\<open>MinT\<close> element with
  one time entry more than the first element, and a second \<^verbatim>\<open>PoP\<close> entry whose unit is not
  the percent marker.
\<close>

definition sample_entry :: "string \<Rightarrow> string \<Rightarrow> (string \<times> jsval) list \<Rightarrow> jsval" where
  "sample_entry start end_time parameter =
     JObj [(''startTime'', JStr start), (''endTime'', JStr end_time),
           (''parameter'', JObj parameter)]"

definition sample_Wx :: jsval where
  "sample_Wx = JObj
     [(''elementName'', JStr ''Wx''),
      (''time'', JArr
         [sample_entry ''06:00'' ''18:00''
            [(''parameterName'', JStr ''sunny''), (''parameterValue'', JStr ''1'')],
          sample_entry ''18:00'' ''06:00''
            [(''parameterName'', JStr ''cloudy''), (''parameterValue'', JStr ''4'')]])]"

definition sample_PoP :: "string \<Rightarrow> string \<Rightarrow> jsval" where
  "sample_PoP day night = JObj
     [(''elementName'', JStr ''PoP''),
      (''time'', JArr
         [sample_entry ''06:00'' ''18:00''
            [(''parameterName'', JStr day), (''parameterUnit'', JStr unit_percent)],
          sample_entry ''18:00'' ''06:00''
            [(''parameterName'', JStr night), (''parameterUnit'', JStr ''percent'')]])]"

definition sample_MinT :: jsval where
  "sample_MinT = JObj
     [(''elementName'', JStr ''MinT''),
      (''time'', JArr
         [sample_entry ''06:00'' ''18:00''
            [(''parameterName'', JStr ''18''), (''parameterUnit'', JStr ''C'')],
          sample_entry ''18:00'' ''06:00''
            [(''parameterName'', JStr ''15''), (''parameterUnit'', JStr ''C'')],
          sample_entry ''06:00'' ''18:00''
            [(''parameterName'', JStr ''19''), (''parameterUnit'', JStr ''C'')]])]"

definition sample_elements :: "jsval list" where
  "sample_elements = [sample_Wx, sample_PoP ''10'' ''20'', sample_MinT, sample_PoP ''30'' ''40'']"

definition sample_times :: "jsval list" where
  "sample_times =
     [sample_entry ''06:00'' ''18:00''
        [(''parameterName'', JStr ''sunny''), (''parameterValue'', JStr ''1'')],
      sample_entry ''18:00'' ''06:00''
        [(''parameterName'', JStr ''cloudy''), (''parameterValue'', JStr ''4'')]]"

definition sample_location :: jsval where
  "sample_location = JObj
     [(''locationName'', JStr ''Taipei''), (''weatherElement'', JArr sample_elements)]"

definition sample_records :: jsval where
  "sample_records = JObj
     [(''datasetDescription'', JStr ''36 hours''), (''location'', JArr [sample_location])]"

definition sample_data :: jsval where
  "sample_data = JObj [(''success'', JStr ''true''), (''records'', sample_records)]"

text \<open>A document whose only element has no time entries.\<close>

definition sample_no_slots :: jsval where
  "sample_no_slots = JObj
     [(''records'', JObj
        [(''datasetDescription'', JStr ''36 hours''),
         (''location'', JArr
            [JObj [(''locationName'', JStr ''Taipei''),
                   (''weatherElement'', JArr
                      [JObj [(''elementName'', JStr ''Wx''), (''time'', JArr [])]])]])])]"

text \<open>
  The round trip of the specification: the upstream answers the request for Taipei
  (\<^term>\<open>Taipei_City\<close> is U+81FA U+5317 U+5E02, the table's name for the slug \<^verbatim>\<open>taipei\<close>) with
  one location that has one \<^verbatim>\<open>Wx\<close> element with one time entry, whose parameter name
  \<^term>\<open>cloudy\<close> is U+591A U+96F2 and which has no unit; the document has no
  \<^verbatim>\<open>datasetDescription\<close>. \<^term>\<open>round_trip_body\<close> is the object the handler passes to
  \<^verbatim>\<open>res.json\<close>, \<^term>\<open>round_trip_expected\<close> the JSON document the specification expects.
  \<^term>\<open>round_trip_network\<close> answers that one request and no other.
\<close>

definition Taipei_City :: string where
  "Taipei_City = [CHR 0xE8, CHR 0x87, CHR 0xBA, CHR 0xE5, CHR 0x8C, CHR 0x97, CHR 0xE5, CHR 0xB8, CHR 0x82]"

definition cloudy :: string where
  "cloudy = [CHR 0xE5, CHR 0xA4, CHR 0x9A, CHR 0xE9, CHR 0x9B, CHR 0xB2]"

definition round_trip_upstream :: jsval where
  "round_trip_upstream = JObj
     [(''records'', JObj
        [(''location'', JArr
           [JObj
              [(''locationName'', JStr Taipei_City),
               (''weatherElement'', JArr
                  [JObj
                     [(''elementName'', JStr ''Wx''),
                      (''time'', JArr
                         [JObj
                            [(''startTime'', JStr ''2024-01-01T00:00:00+08:00''),
                             (''endTime'', JStr ''2024-01-01T06:00:00+08:00''),
                             (''parameter'', JObj [(''parameterName'', JStr cloudy)])]])]])]])])]"

definition round_trip_slot :: jsval where
  "round_trip_slot = JObj
     [(''startTime'', JStr ''2024-01-01T00:00:00+08:00''),
      (''endTime'', JStr ''2024-01-01T06:00:00+08:00''),
      (''weather'', JStr cloudy), (''rain'', JStr ''''), (''minTemp'', JStr ''''),
      (''maxTemp'', JStr ''''), (''comfort'', JStr ''''), (''windSpeed'', JStr '''')]"

definition round_trip_body :: jsval where
  "round_trip_body = JObj
     [(''success'', JBool True),
      (''data'', JObj
         [(''city'', JStr Taipei_City), (''updateTime'', JUndefined),
          (''forecasts'', JArr [round_trip_slot])])]"

definition round_trip_expected :: jsval where
  "round_trip_expected = JObj
     [(''success'', JBool True),
      (''data'', JObj [(''city'', JStr Taipei_City), (''forecasts'', JArr [round_trip_slot])])]"

definition round_trip_network :: "request \<Rightarrow> axios_result" where
  "round_trip_network request =
     (if request = forecast_request ''test-key'' (JStr Taipei_City)
      then Fulfilled round_trip_upstream
      else Rejected None ''unexpected request'')"

section \<open>Auxiliary definitions of the proofs\<close>

text \<open>
  What the \<^verbatim>\<open>switch\<close> does to the forecast \<open>h\<close> when the parameter's name is the string \<open>s\<close>
  and its unit is \<open>u\<close>; \<^term>\<open>forEach_callback\<close> is shown equal to it on entries of the
  documented shape (lemma \<open>callback_assign\<close>).
\<close>

definition assign :: "jsval \<Rightarrow> string \<Rightarrow> jsval \<Rightarrow> forecast \<Rightarrow> forecast" where
  "assign elementName s u h =
     (if elementName = JStr ''Wx'' then h\<lparr>weather := JStr s\<rparr>
      else if elementName = JStr ''PoP'' then
        h\<lparr>rain := JStr (s @ (if u = JStr unit_percent then ''%'' else ''''))\<rparr>
      else if elementName = JStr ''MinT'' then
        h\<lparr>minTemp := JStr (s @ (if u = JStr ''C'' then degree_sign else ''''))\<rparr>
      else if elementName = JStr ''MaxT'' then
        h\<lparr>maxTemp := JStr (s @ (if u = JStr ''C'' then degree_sign else ''''))\<rparr>
      else if elementName = JStr ''CI'' then h\<lparr>comfort := JStr s\<rparr>
      else if elementName = JStr ''WS'' then h\<lparr>windSpeed := JStr s\<rparr>
      else h)"

section \<open>Lemmas\<close>

lemma and_then_Inl [simp]: "and_then (Inl e) f = Inl e"
  by (simp add: and_then_def)

lemma and_then_Inr [simp]: "and_then (Inr v) f = f v"
  by (simp add: and_then_def)

lemma time_entry_okE:
  assumes "time_entry_ok t"
  obtains ps qs s where "t = JObj ps" "map_of ps ''parameter'' = Some (JObj qs)"
    "map_of qs ''parameterName'' = Some (JStr s)"
proof -
  from assms obtain ps where t: "t = JObj ps"
    by (cases t) simp_all
  from assms t obtain v where v: "map_of ps ''parameter'' = Some v"
    by (cases "map_of ps ''parameter''") simp_all
  from assms t v obtain qs where qs: "v = JObj qs"
    by (cases v) simp_all
  from assms t v qs obtain w where w: "map_of qs ''parameterName'' = Some w"
    by (cases "map_of qs ''parameterName''") simp_all
  from assms t v qs w obtain s where s: "w = JStr s"
    by (cases w) simp_all
  from t v qs w s show thesis
    by (intro that) simp_all
qed

lemma element_okE:
  assumes "element_ok n e"
  obtains ps ts where "e = JObj ps" "map_of ps ''time'' = Some (JArr ts)" "n \<le> length ts"
    "list_all time_entry_ok (take n ts)"
proof -
  from assms obtain ps where e: "e = JObj ps"
    by (cases e) simp_all
  from assms e obtain v where v: "map_of ps ''time'' = Some v"
    by (cases "map_of ps ''time''") simp_all
  from assms e v obtain ts where ts: "v = JArr ts"
    by (cases v) simp_all
  from assms e v ts have "n \<le> length ts" "list_all time_entry_ok (take n ts)"
    by simp_all
  with e v ts show thesis
    by (intro that) simp_all
qed

lemma object_get_own: "map_of ps k = Some v \<Longrightarrow> object_get ps k = v"
  by (simp add: object_get_def)

lemma with_unit_string:
  assumes "map_of qs ''parameterName'' = Some (JStr s)"
  shows "with_unit (JObj qs) unit suffix =
           Inr (JStr (s @ (if object_get qs ''parameterUnit'' = JStr unit then suffix else '''')))"
  using assms by (simp add: with_unit_def object_get_own)

lemma callback_assign:
  assumes "map_of ps ''time'' = Some (JArr ts)" "i < length ts" "ts ! i = JObj es"
    "map_of es ''parameter'' = Some (JObj qs)" "map_of qs ''parameterName'' = Some (JStr s)"
  shows "forEach_callback i h (JObj ps) =
           Inr (assign (object_get ps ''elementName'') s (object_get qs ''parameterUnit'') h)"
proof -
  have "forEach_callback i h (JObj ps) =
      (let elementName = object_get ps ''elementName''; val = JObj qs in
       if elementName = JStr ''Wx'' then
         and_then (get_prop val ''parameterName'') (\<lambda>v. Inr (h\<lparr>weather := v\<rparr>))
       else if elementName = JStr ''PoP'' then
         and_then (with_unit val unit_percent ''%'') (\<lambda>v. Inr (h\<lparr>rain := v\<rparr>))
       else if elementName = JStr ''MinT'' then
         and_then (with_unit val ''C'' degree_sign) (\<lambda>v. Inr (h\<lparr>minTemp := v\<rparr>))
       else if elementName = JStr ''MaxT'' then
         and_then (with_unit val ''C'' degree_sign) (\<lambda>v. Inr (h\<lparr>maxTemp := v\<rparr>))
       else if elementName = JStr ''CI'' then
         and_then (get_prop val ''parameterName'') (\<lambda>v. Inr (h\<lparr>comfort := v\<rparr>))
       else if elementName = JStr ''WS'' then
         and_then (get_prop val ''parameterName'') (\<lambda>v. Inr (h\<lparr>windSpeed := v\<rparr>))
       else Inr h)"
    using assms(1-4) by (simp add: forEach_callback_def object_get_own Let_def)
  also have "\<dots> = Inr (assign (object_get ps ''elementName'') s (object_get qs ''parameterUnit'') h)"
    by (simp add: Let_def assign_def with_unit_string [OF assms(5)] object_get_own [OF assms(5)])
  finally show ?thesis .
qed

lemma callback_ok:
  assumes "element_ok n e" "i < n"
  obtains ps ts es qs s where "e = JObj ps" "map_of ps ''time'' = Some (JArr ts)" "i < length ts"
    "ts ! i = JObj es" "map_of es ''parameter'' = Some (JObj qs)"
    "map_of qs ''parameterName'' = Some (JStr s)"
    "\<And>h. forEach_callback i h e =
           Inr (assign (object_get ps ''elementName'') s (object_get qs ''parameterUnit'') h)"
proof -
  from assms(1) obtain ps ts where e: "e = JObj ps" "map_of ps ''time'' = Some (JArr ts)"
    "n \<le> length ts" "list_all time_entry_ok (take n ts)"
    by (rule element_okE)
  from e(3) assms(2) have i: "i < length ts"
    by simp
  from e(4) assms(2) i have "time_entry_ok (ts ! i)"
    by (simp add: list_all_length)
  then obtain es qs s where t: "ts ! i = JObj es" "map_of es ''parameter'' = Some (JObj qs)"
    "map_of qs ''parameterName'' = Some (JStr s)"
    by (rule time_entry_okE)
  have "forEach_callback i h e =
          Inr (assign (object_get ps ''elementName'') s (object_get qs ''parameterUnit'') h)" for h
    unfolding e(1) by (rule callback_assign [OF e(2) i t])
  then show thesis
    by (rule that [OF e(1,2) i t])
qed

lemma assign_times [simp]:
  "startTime (assign n s u h) = startTime h" "endTime (assign n s u h) = endTime h"
  by (simp_all add: assign_def)

lemma field_assign_other:
  "n \<noteq> JStr (code_name c) \<Longrightarrow> field c (assign n s u h) = field c h"
  by (cases c) (simp_all add: assign_def)

lemma field_assign_same:
  "field c (assign (JStr (code_name c)) s u h) = field c (assign (JStr (code_name c)) s u h')"
  by (cases c) (simp_all add: assign_def)

lemma forEach_elements_ok:
  assumes "list_all (element_ok n) es" "i < n"
  shows "\<exists>g. forEach_elements (forEach_callback i) h es = Inr g
           \<and> startTime g = startTime h \<and> endTime g = endTime h
           \<and> (\<forall>c. (\<forall>e\<in>set es. get_prop e ''elementName'' \<noteq> Inr (JStr (code_name c)))
                  \<longrightarrow> field c g = field c h)"
  using assms(1)
proof (induction es arbitrary: h)
  case Nil
  then show ?case by simp
next
  case (Cons e es)
  from Cons.prems have e: "element_ok n e" and es: "list_all (element_ok n) es"
    by simp_all
  from e assms(2) obtain ps s u where ps: "e = JObj ps"
    and cb: "\<And>h. forEach_callback i h e = Inr (assign (object_get ps ''elementName'') s u h)"
    by (rule callback_ok) blast
  let ?h = "assign (object_get ps ''elementName'') s u h"
  from Cons.IH [OF es, of ?h] obtain g where g:
    "forEach_elements (forEach_callback i) ?h es = Inr g"
    "startTime g = startTime ?h" "endTime g = endTime ?h"
    "\<And>c. (\<forall>e\<in>set es. get_prop e ''elementName'' \<noteq> Inr (JStr (code_name c)))
           \<Longrightarrow> field c g = field c ?h"
    by blast
  have "forEach_elements (forEach_callback i) h (e # es) = Inr g"
    by (simp add: cb g(1))
  moreover have "startTime g = startTime h" "endTime g = endTime h"
    using g(2,3) by simp_all
  moreover have "field c g = field c h"
    if "\<forall>e'\<in>set (e # es). get_prop e' ''elementName'' \<noteq> Inr (JStr (code_name c))" for c
  proof -
    from that have "object_get ps ''elementName'' \<noteq> JStr (code_name c)"
      by (simp add: ps)
    then have "field c ?h = field c h"
      by (rule field_assign_other)
    moreover from that have "field c g = field c ?h"
      by (intro g(4)) simp
    ultimately show ?thesis by simp
  qed
  ultimately show ?case by blast
qed

lemma forEach_elements_append:
  "forEach_elements cb h (xs @ ys) =
     (case forEach_elements cb h xs of Inl e \<Rightarrow> Inl e | Inr g \<Rightarrow> forEach_elements cb g ys)"
  by (induction xs arbitrary: h) (simp_all split: sum.splits)

lemma forEach_elements_last:
  assumes ok: "list_all (element_ok n) (before @ e # after)" and i: "i < n"
    and name: "get_prop e ''elementName'' = Inr (JStr (code_name c))"
    and after: "\<forall>e'\<in>set after. get_prop e' ''elementName'' \<noteq> Inr (JStr (code_name c))"
  shows "\<exists>g a. forEach_elements (forEach_callback i) h (before @ e # after) = Inr g
           \<and> forEach_callback i h' e = Inr a \<and> field c g = field c a
           \<and> startTime g = startTime h \<and> endTime g = endTime h"
proof -
  from ok have ok_b: "list_all (element_ok n) before" and ok_e: "element_ok n e"
    and ok_a: "list_all (element_ok n) after"
    by simp_all
  from forEach_elements_ok [OF ok_b i, of h] obtain g1 where g1:
    "forEach_elements (forEach_callback i) h before = Inr g1"
    "startTime g1 = startTime h" "endTime g1 = endTime h"
    by blast
  from ok_e i obtain ps s u where ps: "e = JObj ps"
    and cb: "\<And>h. forEach_callback i h e = Inr (assign (object_get ps ''elementName'') s u h)"
    by (rule callback_ok) blast
  from name have nm: "object_get ps ''elementName'' = JStr (code_name c)"
    by (simp add: ps)
  let ?g2 = "assign (JStr (code_name c)) s u g1"
  let ?a = "assign (JStr (code_name c)) s u h'"
  from forEach_elements_ok [OF ok_a i, of ?g2] after obtain g where g:
    "forEach_elements (forEach_callback i) ?g2 after = Inr g"
    "startTime g = startTime ?g2" "endTime g = endTime ?g2" "field c g = field c ?g2"
    by blast
  have "forEach_elements (forEach_callback i) h (before @ e # after) = Inr g"
    by (simp add: forEach_elements_append g1(1) cb nm g(1))
  moreover have "forEach_callback i h' e = Inr ?a"
    by (simp add: cb nm)
  moreover have "field c g = field c ?a"
    using g(4) field_assign_same [of c s u g1 h'] by simp
  moreover have "startTime g = startTime h" "endTime g = endTime h"
    using g(2,3) g1(2,3) by simp_all
  ultimately show ?thesis by blast
qed

lemma slot_unfold:
  assumes wf: "well_formed elements ts" and i: "i < length ts"
  obtains es where "ts ! i = JObj es"
    "slot (JArr elements) i =
       forEach_elements (forEach_callback i)
         (blank (object_get es ''startTime'') (object_get es ''endTime'')) elements"
proof -
  from wf obtain first others where el: "elements = first # others"
    and t: "get_prop first ''time'' = Inr (JArr ts)"
    and ok: "list_all (element_ok (length ts)) elements"
    by (cases elements) (simp_all add: well_formed_def)
  from ok el have "element_ok (length ts) first"
    by simp
  then obtain ps ts' where first: "first = JObj ps" "map_of ps ''time'' = Some (JArr ts')"
    "list_all time_entry_ok (take (length ts) ts')"
    by (rule element_okE)
  from t first(1,2) have "ts' = ts"
    by (simp add: object_get_own)
  with first(3) i have "time_entry_ok (ts ! i)"
    by (simp add: list_all_length)
  then obtain es where es: "ts ! i = JObj es"
    by (rule time_entry_okE)
  have "slot (JArr elements) i =
       forEach_elements (forEach_callback i)
         (blank (object_get es ''startTime'') (object_get es ''endTime'')) elements"
    using i by (simp add: slot_def el t es forEach_def)
  with es show thesis
    by (rule that)
qed

lemma slot_ok:
  assumes wf: "well_formed elements ts" and i: "i < length ts"
  shows "\<exists>f. slot (JArr elements) i = Inr f
           \<and> get_prop (ts ! i) ''startTime'' = Inr (startTime f)
           \<and> get_prop (ts ! i) ''endTime'' = Inr (endTime f)"
proof -
  from wf i obtain es where es: "ts ! i = JObj es"
    and s: "slot (JArr elements) i =
       forEach_elements (forEach_callback i)
         (blank (object_get es ''startTime'') (object_get es ''endTime'')) elements"
    by (rule slot_unfold)
  from wf have ok: "list_all (element_ok (length ts)) elements"
    by (simp add: well_formed_def)
  from forEach_elements_ok [OF ok i] s obtain f where
    "slot (JArr elements) i = Inr f"
    "startTime f = startTime (blank (object_get es ''startTime'') (object_get es ''endTime''))"
    "endTime f = endTime (blank (object_get es ''startTime'') (object_get es ''endTime''))"
    by metis
  then show ?thesis
    by (simp add: es blank_def)
qed

lemma slot_last:
  assumes wf: "well_formed elements ts" and i: "i < length ts"
    and split: "elements = before @ element # after"
    and code: "get_prop element ''elementName'' = Inr (JStr (code_name c))"
    and last: "\<forall>later\<in>set after. get_prop later ''elementName'' \<noteq> Inr (JStr (code_name c))"
  shows "\<exists>f a. slot (JArr elements) i = Inr f \<and> forEach_callback i h element = Inr a
           \<and> field c f = field c a"
proof -
  from wf i obtain es where
    s: "slot (JArr elements) i =
       forEach_elements (forEach_callback i)
         (blank (object_get es ''startTime'') (object_get es ''endTime'')) elements"
    by (rule slot_unfold)
  from wf split have ok: "list_all (element_ok (length ts)) (before @ element # after)"
    by (simp add: well_formed_def)
  from forEach_elements_last [OF ok i code last,
      of "blank (object_get es ''startTime'') (object_get es ''endTime'')" h]
  obtain g a where g:
    "forEach_elements (forEach_callback i)
       (blank (object_get es ''startTime'') (object_get es ''endTime''))
       (before @ element # after) = Inr g"
    "forEach_callback i h element = Inr a" "field c g = field c a"
    by blast
  from s g(1) have "slot (JArr elements) i = Inr g"
    by (simp add: split)
  with g(2,3) show ?thesis
    by blast
qed

lemma for_loop_run:
  assumes slots: "\<forall>i<n. slot we i = Inr (F i)"
  shows "k \<le> n \<Longrightarrow>
         for_loop we (JNum (int n)) k acc = Inr (acc @ map (\<lambda>i. forecast_object (F i)) [k..<n])"
proof (induction "n - k" arbitrary: k acc)
  case 0
  then have "k = n" by simp
  then show ?case
    by (subst for_loop.simps) simp
next
  case (Suc d)
  then have k: "k < n" and d: "d = n - Suc k" and le: "Suc k \<le> n"
    by simp_all
  from slots k have s: "slot we k = Inr (F k)"
    by simp
  have "for_loop we (JNum (int n)) k acc =
          for_loop we (JNum (int n)) (Suc k) (acc @ [forecast_object (F k)])"
    using k by (subst for_loop.simps) (simp add: s)
  also have "\<dots> = Inr ((acc @ [forecast_object (F k)]) @ map (\<lambda>i. forecast_object (F i)) [Suc k..<n])"
    by (rule Suc.hyps(1) [OF d le])
  also have "\<dots> = Inr (acc @ map (\<lambda>i. forecast_object (F i)) [k..<n])"
    using k by (simp add: upt_conv_Cons)
  finally show ?case .
qed

lemma CWA_CITY_MAP_truthy:
  assumes "k \<in> fst ` set CWA_CITY_MAP"
  shows "truthy (object_get CWA_CITY_MAP k)"
proof -
  from assms obtain v where v: "map_of CWA_CITY_MAP k = Some v"
    by (metis map_of_eq_None_iff not_Some_eq)
  then have "(k, v) \<in> set CWA_CITY_MAP"
    by (rule map_of_SomeD)
  then have "truthy v"
    unfolding CWA_CITY_MAP_def by (simp, elim disjE) simp_all
  with v show ?thesis
    by (simp add: object_get_def)
qed

lemma get_prop_array_object:
  assumes "get_prop v k = Inr (JArr xs)"
  obtains ps where "v = JObj ps"
  using assms
  by (cases v) (simp_all add: no_such_property_def split: if_splits)

lemma sample_well_formed: "well_formed sample_elements sample_times"
  by (simp add: well_formed_def sample_elements_def sample_times_def sample_Wx_def
      sample_PoP_def sample_MinT_def sample_entry_def object_get_def)

lemma not_in_table:
  assumes "k \<notin> fst ` set CWA_CITY_MAP"
    and "k \<notin> set (''__proto__'' # ''constructor'' # Object_prototype_methods)"
  shows "object_get CWA_CITY_MAP k = JUndefined"
proof -
  from assms(1) have "map_of CWA_CITY_MAP k = None"
    by (simp add: map_of_eq_None_iff)
  with assms(2) show ?thesis
    by (simp add: object_get_def inherited_def)
qed

lemma taipei_resolves: "object_get CWA_CITY_MAP ''taipei'' = JStr Taipei_City"
  by (simp add: object_get_def CWA_CITY_MAP_def Taipei_City_def)

lemma round_trip_loop:
  "for_loop
     (JArr [JObj [(''elementName'', JStr ''Wx''),
                  (''time'', JArr [JObj [(''startTime'', JStr ''2024-01-01T00:00:00+08:00''),
                             (''endTime'', JStr ''2024-01-01T06:00:00+08:00''),
                             (''parameter'', JObj [(''parameterName'', JStr cloudy)])]])]])
     (JNum 1) 0 [] = Inr [round_trip_slot]"
  by (simp add: for_loop.simps slot_def blank_def forEach_def forEach_callback_def object_get_def
      forecast_object_def round_trip_slot_def inherited_def Object_prototype_methods_def)

lemma round_trip_on_fulfilled:
  "on_fulfilled (JStr Taipei_City) round_trip_upstream = Inr (Reply 200 round_trip_body)"
  by (simp add: on_fulfilled_def round_trip_upstream_def object_get_def round_trip_loop
      round_trip_body_def inherited_def Object_prototype_methods_def)

lemma round_trip_wire: "wire round_trip_body = round_trip_expected"
  by (simp add: round_trip_body_def round_trip_expected_def round_trip_slot_def)

section \<open>The claims\<close>

subsection \<open>C1: the round trip\<close>

text \<open>
  Claim C1. For the slug \<^verbatim>\<open>taipei\<close> the table gives the name \<^term>\<open>Taipei_City\<close>; when the
  upstream answers the request for that name with \<^term>\<open>round_trip_upstream\<close>, the handler
  makes exactly that one request and replies 200 with \<^term>\<open>round_trip_body\<close>, which the
  client reads as \<^term>\<open>round_trip_expected\<close>: \<^verbatim>\<open>success\<close> true, the city, and one forecast with
  the two times, the weather \<^term>\<open>cloudy\<close> and the five other fields empty strings. The
  \<^verbatim>\<open>updateTime\<close> of the body is \<^verbatim>\<open>undefined\<close>, so it is not part of the JSON sent.
\<close>

theorem C1_round_trip:
  assumes key: "key \<noteq> []"
    and lower: "toLowerCase ''taipei'' = ''taipei''"
    and upstream: "axios_get (forecast_request key (JStr Taipei_City)) = Fulfilled round_trip_upstream"
  shows "object_get CWA_CITY_MAP (toLowerCase ''taipei'') = JStr Taipei_City
       \<and> weather_route toLowerCase (Some key) axios_get ''taipei'' =
           \<lparr>outcome = Reply 200 round_trip_body,
            calls = [forecast_request key (JStr Taipei_City)]\<rparr>
       \<and> wire round_trip_body = round_trip_expected"
proof -
  have "Taipei_City \<noteq> []"
    by (simp add: Taipei_City_def)
  with key upstream show ?thesis
    by (simp add: lower taipei_resolves weather_route_def getWeatherByCity_def
        round_trip_on_fulfilled round_trip_wire Let_def)
qed

theorem C1_round_trip_witness:
  "object_get CWA_CITY_MAP (ascii_toLowerCase ''taipei'') = JStr Taipei_City
   \<and> weather_route ascii_toLowerCase (Some ''test-key'') round_trip_network ''taipei'' =
       \<lparr>outcome = Reply 200 round_trip_body,
        calls = [forecast_request ''test-key'' (JStr Taipei_City)]\<rparr>
   \<and> wire round_trip_body = round_trip_expected"
proof -
  have "''test-key'' \<noteq> []"
    by simp
  moreover have "ascii_toLowerCase ''taipei'' = ''taipei''"
    by (simp add: ascii_toLowerCase_def)
  moreover have "round_trip_network (forecast_request ''test-key'' (JStr Taipei_City)) =
      Fulfilled round_trip_upstream"
    by (simp add: round_trip_network_def)
  ultimately show ?thesis
    by (rule C1_round_trip)
qed

subsection \<open>C2: one forecast per time entry of the first element\<close>

text \<open>
  Claim C2. For a fulfilled upstream reply whose first location has a \<^verbatim>\<open>weatherElement\<close> array
  of the documented shape, every element's \<^verbatim>\<open>time\<close> array being at least as long as the first
  element's array \<open>ts\<close>: the reply is the success body, \<^verbatim>\<open>forecasts\<close> has exactly
  \<^term>\<open>length ts\<close> entries (none when \<open>ts\<close> is empty), and the entry at index \<open>i\<close> is the
  forecast object of slot \<open>i\<close>, with the \<^verbatim>\<open>startTime\<close> and \<^verbatim>\<open>endTime\<close> of \<open>ts ! i\<close>.
\<close>

theorem C2_one_slot_per_time_entry:
  assumes key: "key \<noteq> []"
    and reply: "axios_get (forecast_request key cityName) = Fulfilled data"
    and records: "get_prop data ''records'' = Inr records"
    and location: "get_prop records ''location'' = Inr location"
    and locationData: "get_index location 0 = Inr locationData"
    and elements: "get_prop locationData ''weatherElement'' = Inr (JArr elements)"
    and wf: "well_formed elements ts"
  shows "\<exists>city updateTime forecasts.
           outcome (getWeatherByCity (Some key) axios_get cityName) =
             Reply 200 (JObj
               [(''success'', JBool True),
                (''data'', JObj
                   [(''city'', city), (''updateTime'', updateTime),
                    (''forecasts'', JArr forecasts)])])
         \<and> get_prop locationData ''locationName'' = Inr city
         \<and> get_prop records ''datasetDescription'' = Inr updateTime
         \<and> length forecasts = length ts
         \<and> (\<forall>i<length ts.
               get_prop (forecasts ! i) ''startTime'' = get_prop (ts ! i) ''startTime''
             \<and> get_prop (forecasts ! i) ''endTime'' = get_prop (ts ! i) ''endTime''
             \<and> (\<exists>f. slot (JArr elements) i = Inr f \<and> forecasts ! i = forecast_object f))"
proof -
  from elements obtain ls where ls: "locationData = JObj ls"
    by (rule get_prop_array_object)
  have "location \<noteq> JUndefined"
    using locationData by auto
  with location obtain rs where rs: "records = JObj rs"
    by (cases records) (simp_all add: no_such_property_def split: if_splits)
  from wf obtain first others where el: "elements = first # others"
    and t: "get_prop first ''time'' = Inr (JArr ts)"
    by (cases elements) (simp_all add: well_formed_def)
  have "\<forall>i<length ts. \<exists>f. slot (JArr elements) i = Inr f
           \<and> get_prop (ts ! i) ''startTime'' = Inr (startTime f)
           \<and> get_prop (ts ! i) ''endTime'' = Inr (endTime f)"
    using slot_ok [OF wf] by blast
  then obtain F where F: "\<And>i. i < length ts \<Longrightarrow> slot (JArr elements) i = Inr (F i)"
    "\<And>i. i < length ts \<Longrightarrow> get_prop (ts ! i) ''startTime'' = Inr (startTime (F i))"
    "\<And>i. i < length ts \<Longrightarrow> get_prop (ts ! i) ''endTime'' = Inr (endTime (F i))"
    by metis
  define forecasts where "forecasts = map (\<lambda>i. forecast_object (F i)) [0..<length ts]"
  have loop: "for_loop (JArr elements) (JNum (int (length ts))) 0 [] = Inr forecasts"
    using for_loop_run [of "length ts" "JArr elements" F 0 "[]"] F(1)
    by (simp add: forecasts_def)
  have "on_fulfilled cityName data =
          Inr (Reply 200 (JObj
               [(''success'', JBool True),
                (''data'', JObj
                   [(''city'', object_get ls ''locationName''),
                    (''updateTime'', object_get rs ''datasetDescription''),
                    (''forecasts'', JArr forecasts)])]))"
    using records location locationData elements
    by (simp add: on_fulfilled_def ls rs el t loop [unfolded el])
  then have "outcome (getWeatherByCity (Some key) axios_get cityName) =
             Reply 200 (JObj
               [(''success'', JBool True),
                (''data'', JObj
                   [(''city'', object_get ls ''locationName''),
                    (''updateTime'', object_get rs ''datasetDescription''),
                    (''forecasts'', JArr forecasts)])])"
    using key reply by (simp add: getWeatherByCity_def)
  moreover have "get_prop locationData ''locationName'' = Inr (object_get ls ''locationName'')"
    "get_prop records ''datasetDescription'' = Inr (object_get rs ''datasetDescription'')"
    by (simp_all add: ls rs)
  moreover have "length forecasts = length ts"
    by (simp add: forecasts_def)
  moreover have "get_prop (forecasts ! i) ''startTime'' = get_prop (ts ! i) ''startTime''
             \<and> get_prop (forecasts ! i) ''endTime'' = get_prop (ts ! i) ''endTime''
             \<and> (\<exists>f. slot (JArr elements) i = Inr f \<and> forecasts ! i = forecast_object f)"
    if "i < length ts" for i
    using that F [OF that]
    by (simp add: forecasts_def forecast_object_def object_get_def)
  ultimately show ?thesis
    by blast
qed

theorem C2_one_slot_per_time_entry_witness:
  "well_formed sample_elements sample_times
   \<and> (\<exists>forecasts.
         outcome (getWeatherByCity (Some ''key'') (\<lambda>request. Fulfilled sample_data)
           (JStr ''Taipei'')) =
           Reply 200 (JObj
             [(''success'', JBool True),
              (''data'', JObj
                 [(''city'', JStr ''Taipei''), (''updateTime'', JStr ''36 hours''),
                  (''forecasts'', JArr forecasts)])])
       \<and> length forecasts = 2
       \<and> get_prop (forecasts ! 0) ''startTime'' = Inr (JStr ''06:00'')
       \<and> get_prop (forecasts ! 1) ''startTime'' = Inr (JStr ''18:00'')
       \<and> get_prop (forecasts ! 1) ''endTime'' = Inr (JStr ''06:00''))
   \<and> outcome (getWeatherByCity (Some ''key'') (\<lambda>request. Fulfilled sample_no_slots)
         (JStr ''Taipei'')) =
       Reply 200 (JObj
         [(''success'', JBool True),
          (''data'', JObj
             [(''city'', JStr ''Taipei''), (''updateTime'', JStr ''36 hours''),
              (''forecasts'', JArr [])])])"
proof -
  have "well_formed [JObj [(''elementName'', JStr ''Wx''), (''time'', JArr [])]] []"
    by (simp add: well_formed_def object_get_def)
  from C2_one_slot_per_time_entry
    [of "''key''" "\<lambda>request. Fulfilled sample_no_slots" "JStr ''Taipei''" sample_no_slots
      "JObj [(''datasetDescription'', JStr ''36 hours''),
             (''location'', JArr
                [JObj [(''locationName'', JStr ''Taipei''),
                       (''weatherElement'', JArr
                          [JObj [(''elementName'', JStr ''Wx''), (''time'', JArr [])]])]])]"
      "JArr [JObj [(''locationName'', JStr ''Taipei''),
                   (''weatherElement'', JArr
                      [JObj [(''elementName'', JStr ''Wx''), (''time'', JArr [])]])]]"
      "JObj [(''locationName'', JStr ''Taipei''),
             (''weatherElement'', JArr
                [JObj [(''elementName'', JStr ''Wx''), (''time'', JArr [])]])]"
      "[JObj [(''elementName'', JStr ''Wx''), (''time'', JArr [])]]" "[]",
     OF _ _ _ _ _ _ this]
  have no_slots: "outcome (getWeatherByCity (Some ''key'') (\<lambda>request. Fulfilled sample_no_slots)
         (JStr ''Taipei'')) =
       Reply 200 (JObj
         [(''success'', JBool True),
          (''data'', JObj
             [(''city'', JStr ''Taipei''), (''updateTime'', JStr ''36 hours''),
              (''forecasts'', JArr [])])])"
    by (auto simp: sample_no_slots_def object_get_def)
  have records: "get_prop sample_data ''records'' = Inr sample_records"
    by (simp add: sample_data_def object_get_def)
  have location: "get_prop sample_records ''location'' = Inr (JArr [sample_location])"
    by (simp add: sample_records_def object_get_def)
  have locationData: "get_index (JArr [sample_location]) 0 = Inr sample_location"
    by simp
  have elements: "get_prop sample_location ''weatherElement'' = Inr (JArr sample_elements)"
    by (simp add: sample_location_def object_get_def)
  have key: "''key'' \<noteq> []"
    by simp
  have reply: "(\<lambda>request. Fulfilled sample_data) (forecast_request ''key'' (JStr ''Taipei'')) =
      Fulfilled sample_data"
    by simp
  from C2_one_slot_per_time_entry
    [of "''key''" "\<lambda>request. Fulfilled sample_data" "JStr ''Taipei''" sample_data,
     OF key reply records location locationData elements sample_well_formed]
  obtain city updateTime forecasts where
    out: "outcome (getWeatherByCity (Some ''key'') (\<lambda>request. Fulfilled sample_data)
           (JStr ''Taipei'')) =
           Reply 200 (JObj
             [(''success'', JBool True),
              (''data'', JObj
                 [(''city'', city), (''updateTime'', updateTime),
                  (''forecasts'', JArr forecasts)])])"
    and city: "get_prop sample_location ''locationName'' = Inr city"
    and updateTime: "get_prop sample_records ''datasetDescription'' = Inr updateTime"
    and len: "length forecasts = length sample_times"
    and slots: "\<And>i. i < length sample_times \<Longrightarrow>
        get_prop (forecasts ! i) ''startTime'' = get_prop (sample_times ! i) ''startTime''
      \<and> get_prop (forecasts ! i) ''endTime'' = get_prop (sample_times ! i) ''endTime''"
    by blast
  from city have "city = JStr ''Taipei''"
    by (simp add: sample_location_def object_get_def)
  moreover from updateTime have "updateTime = JStr ''36 hours''"
    by (simp add: sample_records_def object_get_def)
  moreover from len have "length forecasts = 2"
    by (simp add: sample_times_def)
  moreover from slots [of 0] slots [of 1]
  have "get_prop (forecasts ! 0) ''startTime'' = Inr (JStr ''06:00'')"
    "get_prop (forecasts ! 1) ''startTime'' = Inr (JStr ''18:00'')"
    "get_prop (forecasts ! 1) ''endTime'' = Inr (JStr ''06:00'')"
    by (simp_all add: sample_times_def sample_entry_def object_get_def)
  ultimately show ?thesis
    using out sample_well_formed no_slots by blast
qed

subsection \<open>C3: the unit suffix\<close>

text \<open>
  Claim C3. In every slot \<open>i\<close> of a document of the documented shape, let \<open>element\<close> be the
  last element with the code \<^verbatim>\<open>PoP\<close>, and let its \<open>i\<close>-th entry have the parameter name
  \<open>name\<close> (a string) and the unit \<open>parameterUnit\<close> (any value, \<^verbatim>\<open>undefined\<close> when absent).
  Then the slot's \<^verbatim>\<open>rain\<close> is \<open>name\<close> followed by \<^verbatim>\<open>%\<close> when the unit is the percent marker
  (U+767E U+5206 U+6BD4), and \<open>name\<close> unchanged for every other unit. The same holds for
  \<^verbatim>\<open>MinT\<close> and \<^verbatim>\<open>MaxT\<close> with \<^verbatim>\<open>minTemp\<close> and \<^verbatim>\<open>maxTemp\<close>, the unit \<^verbatim>\<open>C\<close> and the degree
  sign (U+00B0).
\<close>

theorem C3_unit_suffix:
  assumes wf: "well_formed elements ts" and i: "i < length ts"
    and split: "elements = before @ element # after"
    and code: "get_prop element ''elementName'' = Inr (JStr (code_name c))"
    and last: "\<forall>later\<in>set after. get_prop later ''elementName'' \<noteq> Inr (JStr (code_name c))"
    and time: "get_prop element ''time'' = Inr time"
    and entry: "get_index time i = Inr entry"
    and param: "get_prop entry ''parameter'' = Inr val"
    and name: "get_prop val ''parameterName'' = Inr (JStr name)"
    and unit: "get_prop val ''parameterUnit'' = Inr parameterUnit"
  shows "\<exists>f. slot (JArr elements) i = Inr f
         \<and> (c = PoP \<longrightarrow>
              rain f = JStr (if parameterUnit = JStr unit_percent then name @ ''%'' else name))
         \<and> (c = MinT \<longrightarrow>
              minTemp f = JStr (if parameterUnit = JStr ''C'' then name @ degree_sign else name))
         \<and> (c = MaxT \<longrightarrow>
              maxTemp f = JStr (if parameterUnit = JStr ''C'' then name @ degree_sign else name))"
proof -
  from slot_last [OF wf i split code last, of "blank JUndefined JUndefined"]
  obtain f a where f: "slot (JArr elements) i = Inr f"
    and a: "forEach_callback i (blank JUndefined JUndefined) element = Inr a"
    and fa: "field c f = field c a"
    by blast
  have unit_rule: "with_unit val unit suffix =
      Inr (JStr (if parameterUnit = JStr unit then name @ suffix else name))" for unit suffix
    by (simp add: with_unit_def name unit)
  have "rain f = JStr (if parameterUnit = JStr unit_percent then name @ ''%'' else name)"
    if "c = PoP"
    using a fa that code
    by (auto simp: forEach_callback_def time entry param unit_rule)
  moreover have
    "minTemp f = JStr (if parameterUnit = JStr ''C'' then name @ degree_sign else name)"
    if "c = MinT"
    using a fa that code
    by (auto simp: forEach_callback_def time entry param unit_rule)
  moreover have
    "maxTemp f = JStr (if parameterUnit = JStr ''C'' then name @ degree_sign else name)"
    if "c = MaxT"
    using a fa that code
    by (auto simp: forEach_callback_def time entry param unit_rule)
  ultimately show ?thesis
    using f by blast
qed

theorem C3_unit_suffix_witness:
  "(\<exists>f. slot (JArr sample_elements) 0 = Inr f \<and> rain f = JStr ''30%'')
   \<and> (\<exists>f. slot (JArr sample_elements) 1 = Inr f \<and> rain f = JStr ''40'')
   \<and> (\<exists>f. slot (JArr sample_elements) 0 = Inr f \<and> minTemp f = JStr (''18'' @ degree_sign))"
proof -
  have len: "0 < length sample_times" "1 < length sample_times"
    by (simp_all add: sample_times_def)
  have split_PoP:
    "sample_elements = [sample_Wx, sample_PoP ''10'' ''20'', sample_MinT] @ sample_PoP ''30'' ''40'' # []"
    by (simp add: sample_elements_def)
  have split_MinT:
    "sample_elements = [sample_Wx, sample_PoP ''10'' ''20''] @ sample_MinT # [sample_PoP ''30'' ''40'']"
    by (simp add: sample_elements_def)
  have "\<exists>f. slot (JArr sample_elements) 0 = Inr f \<and> rain f = JStr ''30%''"
    using C3_unit_suffix [OF sample_well_formed len(1) split_PoP, of PoP
        "JArr [sample_entry ''06:00'' ''18:00''
                 [(''parameterName'', JStr ''30''), (''parameterUnit'', JStr unit_percent)],
               sample_entry ''18:00'' ''06:00''
                 [(''parameterName'', JStr ''40''), (''parameterUnit'', JStr ''percent'')]]"
        "sample_entry ''06:00'' ''18:00''
           [(''parameterName'', JStr ''30''), (''parameterUnit'', JStr unit_percent)]"
        "JObj [(''parameterName'', JStr ''30''), (''parameterUnit'', JStr unit_percent)]"
        "''30''" "JStr unit_percent"]
    by (simp add: sample_PoP_def sample_entry_def object_get_def)
  moreover have "\<exists>f. slot (JArr sample_elements) 1 = Inr f \<and> rain f = JStr ''40''"
    using C3_unit_suffix [OF sample_well_formed len(2) split_PoP, of PoP
        "JArr [sample_entry ''06:00'' ''18:00''
                 [(''parameterName'', JStr ''30''), (''parameterUnit'', JStr unit_percent)],
               sample_entry ''18:00'' ''06:00''
                 [(''parameterName'', JStr ''40''), (''parameterUnit'', JStr ''percent'')]]"
        "sample_entry ''18:00'' ''06:00''
           [(''parameterName'', JStr ''40''), (''parameterUnit'', JStr ''percent'')]"
        "JObj [(''parameterName'', JStr ''40''), (''parameterUnit'', JStr ''percent'')]"
        "''40''" "JStr ''percent''"]
    by (simp add: sample_PoP_def sample_entry_def object_get_def unit_percent_def)
  moreover have
    "\<exists>f. slot (JArr sample_elements) 0 = Inr f \<and> minTemp f = JStr (''18'' @ degree_sign)"
    using C3_unit_suffix [OF sample_well_formed len(1) split_MinT, of MinT
        "JArr [sample_entry ''06:00'' ''18:00''
                 [(''parameterName'', JStr ''18''), (''parameterUnit'', JStr ''C'')],
               sample_entry ''18:00'' ''06:00''
                 [(''parameterName'', JStr ''15''), (''parameterUnit'', JStr ''C'')],
               sample_entry ''06:00'' ''18:00''
                 [(''parameterName'', JStr ''19''), (''parameterUnit'', JStr ''C'')]]"
        "sample_entry ''06:00'' ''18:00''
           [(''parameterName'', JStr ''18''), (''parameterUnit'', JStr ''C'')]"
        "JObj [(''parameterName'', JStr ''18''), (''parameterUnit'', JStr ''C'')]"
        "''18''" "JStr ''C''"]
    by (simp add: sample_MinT_def sample_PoP_def sample_entry_def object_get_def)
  ultimately show ?thesis
    by blast
qed

subsection \<open>C4: slugs that are not keys of the table\<close>

text \<open>
  Claim C4 says that every slug that is not a key of the table is answered 404 (invalid
  city code) without a request to the upstream. The lookup \<^verbatim>\<open>CWA_CITY_MAP[citySlug]\<close> is a
  property read on an object literal, so it also finds the properties inherited from
  \<^verbatim>\<open>Object.prototype\<close>. The slugs \<^verbatim>\<open>constructor\<close> and \<^verbatim>\<open>__proto__\<close> are no keys of the table,
  yet the lookup gives the function \<^verbatim>\<open>Object\<close> and the prototype object, both truthy: the
  guard of line 162 does not fire, and with a key set \<^verbatim>\<open>getWeatherByCity\<close> sends the request
  to the upstream, whatever the network answers, with that object as \<^verbatim>\<open>locationName\<close>. When
  the upstream then finds no location, the reply is the 404 of line 61 (no data), whose
  message holds the function's source text, not the 404 of line 163.
\<close>

theorem C4_inherited_property_slug:
  "''constructor'' \<notin> fst ` set CWA_CITY_MAP
   \<and> ''__proto__'' \<notin> fst ` set CWA_CITY_MAP
   \<and> calls (weather_route ascii_toLowerCase (Some ''test-key'') axios_get ''constructor'') =
       [forecast_request ''test-key'' (JNative (Builtin_function ''Object''))]
   \<and> calls (weather_route ascii_toLowerCase (Some ''test-key'') axios_get ''__proto__'') =
       [forecast_request ''test-key'' (JNative Object_prototype)]
   \<and> outcome (weather_route ascii_toLowerCase (Some ''test-key'')
        (\<lambda>request. Fulfilled (JObj [(''records'', JObj [(''location'', JArr [])])]))
        ''constructor'') =
       Reply 404 (JObj
         [(''error'', JStr msg_no_data),
          (''message'',
           JStr (msg_cannot_get @ ''function Object() { [native code] }'' @ msg_check_city))])"
proof -
  have keys: "''constructor'' \<notin> fst ` set CWA_CITY_MAP" "''__proto__'' \<notin> fst ` set CWA_CITY_MAP"
    by (simp_all add: CWA_CITY_MAP_def)
  then have none: "map_of CWA_CITY_MAP ''constructor'' = None"
    "map_of CWA_CITY_MAP ''__proto__'' = None"
    by (simp_all add: map_of_eq_None_iff)
  have lower: "ascii_toLowerCase ''constructor'' = ''constructor''"
    "ascii_toLowerCase ''__proto__'' = ''__proto__''"
    by (simp_all add: ascii_toLowerCase_def)
  show ?thesis
    using keys
    by (simp add: weather_route_def lower getWeatherByCity_def on_fulfilled_def
        object_get_def none inherited_def Let_def)
qed

subsection \<open>C5: the slug in the 404 message\<close>

text \<open>
  Claim C5 says that the 404 message echoes the slug as the URL gave it. The handler keeps
  only the lowercased slug (line 159) and puts that into the message: for the slug
  \<^verbatim>\<open>Foo\<close> the message holds \<^verbatim>\<open>foo\<close>, and \<^verbatim>\<open>Foo\<close> occurs nowhere in it.
\<close>

theorem C5_counterexample:
  "object_get CWA_CITY_MAP (ascii_toLowerCase ''Foo'') = JUndefined
   \<and> outcome (weather_route ascii_toLowerCase (Some ''test-key'')
        (\<lambda>request. Rejected None ''offline'') ''Foo'') =
       Reply 404 (JObj
         [(''success'', JBool False),
          (''error'', JStr msg_invalid_slug),
          (''message'', JStr (msg_slug_before @ ''foo'' @ msg_slug_after))])
   \<and> \<not> (\<exists>before after. msg_slug_before @ ''foo'' @ msg_slug_after = before @ ''Foo'' @ after)"
proof -
  have lower: "ascii_toLowerCase ''Foo'' = ''foo''"
    by (simp add: ascii_toLowerCase_def)
  have "''foo'' \<notin> fst ` set CWA_CITY_MAP"
    by (simp add: CWA_CITY_MAP_def)
  moreover have "''foo'' \<notin> set (''__proto__'' # ''constructor'' # Object_prototype_methods)"
    by (simp add: Object_prototype_methods_def)
  ultimately have miss: "object_get CWA_CITY_MAP ''foo'' = JUndefined"
    by (rule not_in_table)
  have "CHR ''F'' \<notin> set (msg_slug_before @ ''foo'' @ msg_slug_after)"
    by (simp add: msg_slug_before_def msg_slug_after_def)
  moreover have "CHR ''F'' \<in> set (before @ ''Foo'' @ after)" for before after
    by simp
  ultimately have "msg_slug_before @ ''foo'' @ msg_slug_after \<noteq> before @ ''Foo'' @ after"
    for before after
    by metis
  then show ?thesis
    by (simp add: weather_route_def lower miss Let_def)
qed

text \<open>
  Claim C5, amended. For every slug whose lowercased form is neither a key of the table
  nor the name of a property inherited from \<^verbatim>\<open>Object.prototype\<close>, the reply is 404, no
  request is made to the upstream, and the message holds the lowercased slug between its
  two fixed parts. (It is the slug of the URL exactly when that one is in lower case
  already.)
\<close>

theorem C5_echoes_lowercased_slug:
  assumes "toLowerCase slug \<notin> fst ` set CWA_CITY_MAP"
    and "toLowerCase slug \<notin> set (''__proto__'' # ''constructor'' # Object_prototype_methods)"
  shows "weather_route toLowerCase CWA_API_KEY axios_get slug =
           \<lparr>outcome = Reply 404 (JObj
              [(''success'', JBool False),
               (''error'', JStr msg_invalid_slug),
               (''message'', JStr (msg_slug_before @ toLowerCase slug @ msg_slug_after))]),
            calls = []\<rparr>"
  using not_in_table [OF assms]
  by (simp add: weather_route_def Let_def)

theorem C5_echoes_lowercased_slug_witness:
  "weather_route ascii_toLowerCase (Some ''test-key'') (\<lambda>request. Rejected None ''offline'')
      ''Atlantis'' =
     \<lparr>outcome = Reply 404 (JObj
        [(''success'', JBool False),
         (''error'', JStr msg_invalid_slug),
         (''message'', JStr (msg_slug_before @ ''atlantis'' @ msg_slug_after))]),
      calls = []\<rparr>"
proof -
  have lower: "ascii_toLowerCase ''Atlantis'' = ''atlantis''"
    by (simp add: ascii_toLowerCase_def)
  have "ascii_toLowerCase ''Atlantis'' \<notin> fst ` set CWA_CITY_MAP"
    by (simp add: lower CWA_CITY_MAP_def)
  moreover have "ascii_toLowerCase ''Atlantis''
      \<notin> set (''__proto__'' # ''constructor'' # Object_prototype_methods)"
    by (simp add: lower Object_prototype_methods_def)
  ultimately show ?thesis
    using C5_echoes_lowercased_slug [where toLowerCase = ascii_toLowerCase
        and slug = "''Atlantis''" and CWA_API_KEY = "Some ''test-key''"
        and axios_get = "\<lambda>request. Rejected None ''offline''"]
    by (simp add: lower)
qed

subsection \<open>C6: no location in the upstream's reply\<close>

text \<open>
  Claim C6 says that the reply is 404 both for an empty \<^verbatim>\<open>records.location\<close> array and for a
  document in which the path \<^verbatim>\<open>records.location\<close> is absent. In the second case line 58
  reads a property of \<^verbatim>\<open>undefined\<close>: the TypeError goes to the \<^verbatim>\<open>catch\<close> block, which answers
  500 with the general message.
\<close>

theorem C6_counterexample:
  "get_prop (JObj [(''success'', JStr ''true'')]) ''records'' = Inr JUndefined
   \<and> outcome (getWeatherByCity (Some ''test-key'')
        (\<lambda>request. Fulfilled (JObj [(''success'', JStr ''true'')])) (JStr Taipei_City)) =
       Reply 500 (JObj [(''error'', JStr msg_server_error), (''message'', JStr msg_try_later)])"
  by (simp add: getWeatherByCity_def on_fulfilled_def on_error_def object_get_def inherited_def
      Object_prototype_methods_def)

text \<open>
  Claim C6, amended. For a fulfilled upstream reply: when \<^verbatim>\<open>records.location\<close> is the empty
  array, the reply is 404 with the no-data message that names the city; when \<^verbatim>\<open>records\<close>
  is absent, or \<^verbatim>\<open>records\<close> is there and \<^verbatim>\<open>location\<close> is absent, the reply is 500 with the
  general message of the \<^verbatim>\<open>catch\<close> block.
\<close>

theorem C6_location_not_found:
  assumes key: "key \<noteq> []"
    and upstream: "axios_get (forecast_request key cityName) = Fulfilled data"
    and name: "to_string cityName = Inr name"
  shows "(get_prop data ''records'' = Inr records \<and> get_prop records ''location'' = Inr (JArr [])
           \<longrightarrow> outcome (getWeatherByCity (Some key) axios_get cityName) =
                 Reply 404 (JObj
                   [(''error'', JStr msg_no_data),
                    (''message'', JStr (msg_cannot_get @ name @ msg_check_city))]))
       \<and> (get_prop data ''records'' = Inr JUndefined
           \<or> get_prop data ''records'' = Inr records \<and> get_prop records ''location'' = Inr JUndefined
           \<longrightarrow> outcome (getWeatherByCity (Some key) axios_get cityName) =
                 Reply 500 (JObj
                   [(''error'', JStr msg_server_error), (''message'', JStr msg_try_later)]))"
  using key upstream name
  by (auto simp: getWeatherByCity_def on_fulfilled_def on_error_def)

theorem C6_location_not_found_witness:
  "outcome (getWeatherByCity (Some ''test-key'')
      (\<lambda>request. Fulfilled (JObj [(''records'', JObj [(''location'', JArr [])])]))
      (JStr Taipei_City)) =
     Reply 404 (JObj
       [(''error'', JStr msg_no_data),
        (''message'', JStr (msg_cannot_get @ Taipei_City @ msg_check_city))])
   \<and> outcome (getWeatherByCity (Some ''test-key'')
      (\<lambda>request. Fulfilled (JObj [(''records'', JObj [])])) (JStr Taipei_City)) =
     Reply 500 (JObj [(''error'', JStr msg_server_error), (''message'', JStr msg_try_later)])"
  using C6_location_not_found [of "''test-key''"
      "\<lambda>request. Fulfilled (JObj [(''records'', JObj [(''location'', JArr [])])])"
      "JStr Taipei_City" "JObj [(''records'', JObj [(''location'', JArr [])])]" Taipei_City
      "JObj [(''location'', JArr [])]"]
    C6_location_not_found [of "''test-key''"
      "\<lambda>request. Fulfilled (JObj [(''records'', JObj [])])"
      "JStr Taipei_City" "JObj [(''records'', JObj [])]" Taipei_City "JObj []"]
  by (simp add: object_get_def inherited_def Object_prototype_methods_def)

subsection \<open>C7: an error status from the upstream\<close>

text \<open>
  Claim C7 says that for every response with an error status the proxy replies with that
  status, the upstream's message and the upstream's body. The message of the reply is
  \<^verbatim>\<open>error.response.data.message || ...\<close>: an upstream message that is falsy (the empty
  string here) is replaced by the handler's own text. And when the upstream's body is
  \<^verbatim>\<open>null\<close>, reading its \<^verbatim>\<open>message\<close> throws inside the \<^verbatim>\<open>catch\<close> block, and nothing is sent.
\<close>

theorem C7_counterexample:
  "outcome (getWeatherByCity (Some ''test-key'')
      (\<lambda>request. Rejected (Some (503, JObj [(''message'', JStr '''')]))
         ''Request failed with status code 503'')
      (JStr Taipei_City)) =
     Reply 503 (JObj
       [(''error'', JStr msg_cwa_error),
        (''message'', JStr (msg_cannot_get @ Taipei_City @ msg_weather_data)),
        (''details'', JObj [(''message'', JStr '''')])])
   \<and> JStr (msg_cannot_get @ Taipei_City @ msg_weather_data) \<noteq> JStr ''''
   \<and> outcome (getWeatherByCity (Some ''test-key'')
      (\<lambda>request. Rejected (Some (503, JNull)) ''Request failed with status code 503'')
      (JStr Taipei_City)) = Unhandled_rejection"
  by (simp add: getWeatherByCity_def on_error_def object_get_def msg_cannot_get_def)

text \<open>
  Claim C7, amended. For every response with an error status whose body has a readable
  \<^verbatim>\<open>message\<close> property (every body but \<^verbatim>\<open>null\<close>; the property may be absent, that is
  \<^verbatim>\<open>undefined\<close>): the reply has the upstream's status, \<^verbatim>\<open>details\<close> is the upstream's body
  unchanged, and \<^verbatim>\<open>message\<close> is the upstream's message when that is truthy, and otherwise
  the handler's text that names the city.
\<close>

theorem C7_upstream_http_error:
  assumes key: "key \<noteq> []"
    and upstream: "axios_get (forecast_request key cityName) = Rejected (Some (status, data)) text"
    and message: "get_prop data ''message'' = Inr message"
    and name: "to_string cityName = Inr name"
  shows "outcome (getWeatherByCity (Some key) axios_get cityName) =
           Reply status (JObj
             [(''error'', JStr msg_cwa_error),
              (''message'',
               if truthy message then message
               else JStr (msg_cannot_get @ name @ msg_weather_data)),
              (''details'', data)])"
  using assms by (simp add: getWeatherByCity_def on_error_def)

theorem C7_upstream_http_error_witness:
  "outcome (getWeatherByCity (Some ''test-key'')
      (\<lambda>request. Rejected
         (Some (503, JObj [(''message'', JStr ''Service Unavailable''), (''code'', JNum 503)]))
         ''Request failed with status code 503'')
      (JStr Taipei_City)) =
     Reply 503 (JObj
       [(''error'', JStr msg_cwa_error),
        (''message'', JStr ''Service Unavailable''),
        (''details'', JObj [(''message'', JStr ''Service Unavailable''), (''code'', JNum 503)])])"
  using C7_upstream_http_error [of "''test-key''"
      "\<lambda>request. Rejected
         (Some (503, JObj [(''message'', JStr ''Service Unavailable''), (''code'', JNum 503)]))
         ''Request failed with status code 503''"
      "JStr Taipei_City" 503
      "JObj [(''message'', JStr ''Service Unavailable''), (''code'', JNum 503)]"
      "''Request failed with status code 503''" "JStr ''Service Unavailable''" Taipei_City]
  by (simp add: object_get_def)

subsection \<open>C8: a request that gets no answer\<close>

text \<open>
  Claim C8. When the request to the upstream gets no response (a timeout, a DNS failure, a
  refused connection), \<^verbatim>\<open>axios.get\<close> rejects with an error that has no \<^verbatim>\<open>response\<close>. The
  proxy then answers 500 with one fixed body: the reply is the same for every such
  failure, whatever the text of the exception, and for every city name the function is
  called with. The route passes every request that reaches the upstream through
  \<^term>\<open>getWeatherByCity\<close>.
\<close>

theorem C8_transport_failure:
  assumes "key \<noteq> []"
    and "axios_get (forecast_request key cityName) = Rejected None text"
  shows "outcome (getWeatherByCity (Some key) axios_get cityName) =
           Reply 500 (JObj [(''error'', JStr msg_server_error), (''message'', JStr msg_try_later)])"
  using assms by (simp add: getWeatherByCity_def on_error_def)

theorem C8_transport_failure_witness:
  "outcome (getWeatherByCity (Some ''key'') (\<lambda>request. Rejected None ''connect ETIMEDOUT'')
      (object_get CWA_CITY_MAP ''taipei'')) =
     Reply 500 (JObj [(''error'', JStr msg_server_error), (''message'', JStr msg_try_later)])
   \<and> outcome (getWeatherByCity (Some ''key'') (\<lambda>request. Rejected None ''getaddrinfo ENOTFOUND'')
      (object_get CWA_CITY_MAP ''taipei'')) =
     Reply 500 (JObj [(''error'', JStr msg_server_error), (''message'', JStr msg_try_later)])"
  using C8_transport_failure [of "''key''" "\<lambda>request. Rejected None ''connect ETIMEDOUT''"
      "object_get CWA_CITY_MAP ''taipei''" "''connect ETIMEDOUT''"]
    C8_transport_failure [of "''key''" "\<lambda>request. Rejected None ''getaddrinfo ENOTFOUND''"
      "object_get CWA_CITY_MAP ''taipei''" "''getaddrinfo ENOTFOUND''"]
  by simp

subsection \<open>C9: no API key\<close>

text \<open>
  Claim C9. When \<^verbatim>\<open>CWA_API_KEY\<close> is not set or is empty, every request with a slug of the
  table is answered 500 with the message that tells the operator to set the key in the
  \<^verbatim>\<open>.env\<close> file, and no request is made to the upstream.
\<close>

theorem C9_missing_key:
  assumes "CWA_API_KEY = None \<or> CWA_API_KEY = Some []"
    and "toLowerCase slug \<in> fst ` set CWA_CITY_MAP"
  shows "weather_route toLowerCase CWA_API_KEY axios_get slug =
           \<lparr>outcome = Reply 500 (JObj
              [(''error'', JStr msg_config_error), (''message'', JStr msg_set_key)]),
            calls = []\<rparr>"
  using assms(1) CWA_CITY_MAP_truthy [OF assms(2)]
  by (auto simp: weather_route_def getWeatherByCity_def Let_def)

theorem C9_missing_key_witness:
  "ascii_toLowerCase ''Taipei'' \<in> fst ` set CWA_CITY_MAP
   \<and> weather_route ascii_toLowerCase None (\<lambda>request. Fulfilled JNull) ''Taipei'' =
       \<lparr>outcome = Reply 500 (JObj
          [(''error'', JStr msg_config_error), (''message'', JStr msg_set_key)]),
        calls = []\<rparr>"
proof -
  have slug: "ascii_toLowerCase ''Taipei'' \<in> fst ` set CWA_CITY_MAP"
    by (simp add: ascii_toLowerCase_def CWA_CITY_MAP_def)
  from C9_missing_key [where toLowerCase = ascii_toLowerCase and slug = "''Taipei''"
      and CWA_API_KEY = None and axios_get = "\<lambda>request. Fulfilled JNull"] slug
  show ?thesis by simp
qed

subsection \<open>C10: the last element with a code decides the field\<close>

text \<open>
  Claim C10. When the \<^verbatim>\<open>weatherElement\<close> array has several elements with the same code
  \<open>c\<close>, the field of \<open>c\<close> in every slot is what the last of them assigns: for
  \<open>elements = before @ element # after\<close> with no element of code \<open>c\<close> in \<open>after\<close>, and
  whatever \<open>before\<close> holds, the slot's field equals the field the callback assigns for
  \<open>element\<close> alone, from any forecast \<open>h\<close>.
\<close>

theorem C10_last_duplicate_wins:
  assumes wf: "well_formed elements ts" and i: "i < length ts"
    and split: "elements = before @ element # after"
    and code: "get_prop element ''elementName'' = Inr (JStr (code_name c))"
    and last: "\<forall>later\<in>set after. get_prop later ''elementName'' \<noteq> Inr (JStr (code_name c))"
  shows "\<exists>f. slot (JArr elements) i = Inr f
         \<and> (\<forall>h. \<exists>a. forEach_callback i h element = Inr a \<and> field c f = field c a)"
proof -
  from slot_last [OF wf i split code last] obtain f where f: "slot (JArr elements) i = Inr f"
    by blast
  have "\<exists>a. forEach_callback i h element = Inr a \<and> field c f = field c a" for h
    using slot_last [OF wf i split code last, of h] f by auto
  with f show ?thesis
    by blast
qed

theorem C10_last_duplicate_wins_witness:
  "\<exists>f. slot (JArr [sample_Wx, sample_PoP ''10'' ''20'', sample_MinT, sample_PoP ''30'' ''40'']) 0
         = Inr f
       \<and> rain f = JStr ''30%'' \<and> rain f \<noteq> JStr ''10%''"
proof -
  have len: "0 < length sample_times"
    by (simp add: sample_times_def)
  have split:
    "sample_elements = [sample_Wx, sample_PoP ''10'' ''20'', sample_MinT] @ sample_PoP ''30'' ''40'' # []"
    by (simp add: sample_elements_def)
  have code: "get_prop (sample_PoP ''30'' ''40'') ''elementName'' = Inr (JStr (code_name PoP))"
    by (simp add: sample_PoP_def object_get_def)
  have last: "\<forall>later\<in>set []. get_prop later ''elementName'' \<noteq> Inr (JStr (code_name PoP))"
    by simp
  from C10_last_duplicate_wins [OF sample_well_formed len split code last]
  obtain f a where f: "slot (JArr sample_elements) 0 = Inr f"
    and a: "forEach_callback 0 (blank JUndefined JUndefined) (sample_PoP ''30'' ''40'') = Inr a"
    and fa: "field PoP f = field PoP a"
    by blast
  from a have "rain a = JStr ''30%''"
    by (auto simp: forEach_callback_def with_unit_def sample_PoP_def sample_entry_def
        object_get_def)
  with fa have "rain f = JStr ''30%''"
    by simp
  with f show ?thesis
    by (auto simp: sample_elements_def)
qed

end
